theory Spec2Isabelle
  imports Main "HOL-Library.Sublist"
begin

section \<open>Strings as the service uses them\<close>

text \<open>
  This theory models \<open>GitService\<close>, the worktree state and coordination layer of wt-agent:
  the lock manager, the checkpoint restore, the port leases, the garbage collection and the
  status parser, with the worktree registry they rest on.

  The service works on JavaScript strings. They are modelled as \<^typ>\<open>string\<close>, one
  \<^typ>\<open>char\<close> per code unit; only the ASCII white space is known to \<open>trim\<close>.
\<close>

definition LF :: char where
  "LF = CHR 0x0A"

definition CR :: char where
  "CR = CHR 0x0D"

definition is_space :: "char \<Rightarrow> bool" where
  "is_space c = (c = CHR '' '' \<or> c = CHR 0x09 \<or> c = CHR 0x0A \<or> c = CHR 0x0B
     \<or> c = CHR 0x0C \<or> c = CHR 0x0D)"

text \<open>\<open>s.trim()\<close>\<close>

definition trim :: "string \<Rightarrow> string" where
  "trim s = rev (dropWhile is_space (rev (dropWhile is_space s)))"

text \<open>\<open>s.startsWith(p)\<close>\<close>

definition startsWith :: "string \<Rightarrow> string \<Rightarrow> bool" where
  "startsWith p s = (take (length p) s = p)"

text \<open>\<open>s.includes(p)\<close>\<close>

fun str_includes :: "string \<Rightarrow> string \<Rightarrow> bool" where
  "str_includes p [] = (p = [])"
| "str_includes p (c # cs) = (startsWith p (c # cs) \<or> str_includes p cs)"

text \<open>\<open>s.replace(p, r)\<close> for a string pattern: the first occurrence only.\<close>

fun replace_first :: "string \<Rightarrow> string \<Rightarrow> string \<Rightarrow> string" where
  "replace_first p r [] = (if p = [] then r else [])"
| "replace_first p r (c # cs) =
     (if startsWith p (c # cs) then r @ drop (length p) (c # cs)
      else c # replace_first p r cs)"

text \<open>
  \<open>s.split(/\r?\n/)\<close>: a line ends at a line feed, and a carriage return right before
  that line feed belongs to the separator. The result is never empty.
\<close>

definition cons_first :: "char \<Rightarrow> string list \<Rightarrow> string list" where
  "cons_first c ls = (case ls of [] \<Rightarrow> [[c]] | l # r \<Rightarrow> (c # l) # r)"

fun split_lines :: "string \<Rightarrow> string list" where
  "split_lines [] = [[]]"
| "split_lines [c] = (if c = LF then [[], []] else [[c]])"
| "split_lines (c # d # cs) =
     (if c = LF then [] # split_lines (d # cs)
      else if c = CR \<and> d = LF then [] # split_lines cs
      else cons_first c (split_lines (d # cs)))"

text \<open>Decimal rendering of a number, as a template literal does it.\<close>

definition digit_char :: "nat \<Rightarrow> char" where
  "digit_char d = ''0123456789'' ! (d mod 10)"

function show_nat :: "nat \<Rightarrow> string" where
  "show_nat n = (if n < 10 then [digit_char n] else show_nat (n div 10) @ [digit_char n])"
  by pat_completeness auto
termination
  by (relation "measure id") auto

declare show_nat.simps [simp del]

definition show_int :: "int \<Rightarrow> string" where
  "show_int i = (if i < 0 then CHR ''-'' # show_nat (nat (- i)) else show_nat (nat i))"

section \<open>The structured status of a worktree\<close>

text \<open>
  \<open>GitService.status\<close> keeps the lines of \<open>git status --porcelain\<close> that are not blank
  and do not mention the metadata file, then sorts each line into one of four lists by
  its two-character code.
\<close>

record StatusResult =
  st_isClean :: bool
  st_conflicts :: "string list"
  st_modified :: "string list"
  st_added :: "string list"
  st_deleted :: "string list"

definition status_lines :: "string \<Rightarrow> string list" where
  "status_lines output =
     filter (\<lambda>line. trim line \<noteq> [] \<and> \<not> str_includes ''metadata.json'' line) (split_lines output)"

definition is_conflict_code :: "string \<Rightarrow> bool" where
  "is_conflict_code code = (code = ''UU'' \<or> code = ''AA'' \<or> code = ''DD'' \<or> code = ''AU''
     \<or> code = ''UA'' \<or> code = ''DU'' \<or> code = ''UD'')"

text \<open>The body of the \<open>forEach\<close>: \<open>substring(0, 2)\<close> is the code, \<open>substring(3)\<close> the file.\<close>

definition status_line :: "StatusResult \<Rightarrow> string \<Rightarrow> StatusResult" where
  "status_line r line =
     (let code = take 2 line; file = drop 3 line in
      if is_conflict_code code then r\<lparr>st_conflicts := st_conflicts r @ [file]\<rparr>
      else if CHR ''M'' \<in> set code then r\<lparr>st_modified := st_modified r @ [file]\<rparr>
      else if CHR ''A'' \<in> set code \<or> code = ''??'' then r\<lparr>st_added := st_added r @ [file]\<rparr>
      else if CHR ''D'' \<in> set code then r\<lparr>st_deleted := st_deleted r @ [file]\<rparr>
      else r)"

fun status_each :: "StatusResult \<Rightarrow> string list \<Rightarrow> StatusResult" where
  "status_each r [] = r"
| "status_each r (line # lines) = status_each (status_line r line) lines"

definition status_parse :: "string list \<Rightarrow> StatusResult" where
  "status_parse lines =
     (status_each \<lparr>st_isClean = False, st_conflicts = [], st_modified = [], st_added = [],
        st_deleted = []\<rparr> lines)\<lparr>st_isClean := (length lines = 0)\<rparr>"

section \<open>Worktrees, metadata documents and the command runner\<close>

text \<open>
  The metadata document of a worktree is the JSON object in \<open>metadata.json\<close>. Every field
  is optional; an absent field is \<open>None\<close>. The fields have the types the service writes:
  strings, and a number for the port. The field \<open>context\<close> is \<open>contextMsg\<close> here, since
  \<open>context\<close> is a keyword. JSON values that the service never writes (a document that is
  not an object, a field of another type) are not part of the model.
\<close>

record metadata =
  lockedBy :: "string option"
  timestamp :: "string option"
  contextMsg :: "string option"
  port :: "int option"
  lastCheckpoint :: "string option"
  checkpointBase :: "string option"

definition empty_metadata :: metadata where
  "empty_metadata = \<lparr>lockedBy = None, timestamp = None, contextMsg = None, port = None,
     lastCheckpoint = None, checkpointBase = None\<rparr>"

text \<open>
  What is on disk at \<open>metadata.json\<close>: no file, a file that \<open>JSON.parse\<close> rejects, or a
  document.
\<close>

datatype metafile = NoFile | Corrupt | Doc metadata

text \<open>A worktree directory: its metadata file and its \<open>.env.local\<close>.\<close>

record wtdir =
  metadata_json :: metafile
  env_local :: "string option"

text \<open>
  The command runner is outside the service. It is a parameter of every operation: from
  the commands run so far, a command and its working directory it gives the diagnostic of
  a failure (\<open>Inl\<close>) or the output (\<open>Inr\<close>). Any pattern of failures is some runner.
\<close>

type_synonym runner = "(string \<times> string) list \<Rightarrow> string \<Rightarrow> string \<Rightarrow> string + string"

text \<open>
  The state the service works on: the repository directory, the directories it finds with
  \<open>fs.existsSync\<close> (by path), and the commands it has run, oldest first.
\<close>

record world =
  baseDir :: string
  dirs :: "string \<rightharpoonup> wtdir"
  issued :: "(string \<times> string) list"

text \<open>
  The errors the service throws: each constructor is one \<open>throw\<close> of the source, or an
  exception passing through it.
  \<^item> \<open>NotFound f\<close>: ``Worktree for feature f does not exist'';
  \<^item> \<open>LockConflict a\<close>: ``Worktree is already locked by agent: a'', ``Worktree is locked
    by another agent (a)'';
  \<^item> \<open>NoCheckpoints f\<close>: ``No checkpoints found for f'';
  \<^item> \<open>InvalidMetadata f\<close>: ``Invalid metadata for f'';
  \<^item> \<open>NoRestorePoint f\<close>: ``No restore point found for f'';
  \<^item> \<open>RangeExhausted\<close>: ``No available ports in range 8000-8050'';
  \<^item> \<open>CommandFailure m\<close>: a command failed, \<open>m\<close> is the message thrown;
  \<^item> \<open>JsonSyntaxError\<close>: \<open>JSON.parse\<close> threw and nothing caught it.
\<close>

datatype error =
    NotFound string
  | LockConflict string
  | NoCheckpoints string
  | InvalidMetadata string
  | NoRestorePoint string
  | RangeExhausted
  | CommandFailure string
  | JsonSyntaxError

text \<open>\<open>exec\<close>: run the command, trim its output.\<close>

definition exec :: "runner \<Rightarrow> string \<Rightarrow> string \<Rightarrow> world \<Rightarrow> (string + string) \<times> world" where
  "exec R cmd cwd w =
     (case R (issued w) cmd cwd of Inl msg \<Rightarrow> Inl msg | Inr out \<Rightarrow> Inr (trim out),
      w\<lparr>issued := issued w @ [(cmd, cwd)]\<rparr>)"

text \<open>
  \<open>getWorktreeDir\<close>: path separators become a dash, every other character outside
  \<open>[a-zA-Z0-9-]\<close> is dropped. \<open>path.join\<close> is taken on a POSIX path \<open>baseDir\<close> that is
  already normalised.
\<close>

definition is_alnum_dash :: "char \<Rightarrow> bool" where
  "is_alnum_dash c =
     (c \<in> set ''abcdefghijklmnopqrstuvwxyzABCDEFGHIJKLMNOPQRSTUVWXYZ0123456789-'')"

definition normalize_feature :: "string \<Rightarrow> string" where
  "normalize_feature feature =
     filter is_alnum_dash (map (\<lambda>c. if c = CHR ''/'' \<or> c = CHR 0x5C then CHR ''-'' else c) feature)"

definition getWorktreeDir :: "string \<Rightarrow> string \<Rightarrow> string" where
  "getWorktreeDir base feature =
     (let normalized = normalize_feature feature in
      if normalized = [] then base @ ''/.worktrees'' else base @ ''/.worktrees/'' @ normalized)"

text \<open>Reading and writing \<open>metadata.json\<close> in a directory.\<close>

definition read_metadata :: "world \<Rightarrow> string \<Rightarrow> metafile" where
  "read_metadata w p = (case dirs w p of None \<Rightarrow> NoFile | Some d \<Rightarrow> metadata_json d)"

text \<open>
  \<open>fs.writeFileSync\<close> of a document, and \<open>fs.unlinkSync\<close> as the writing of \<open>NoFile\<close>.
  Every caller has checked before that the directory exists.
\<close>

definition put_metadata :: "world \<Rightarrow> string \<Rightarrow> metafile \<Rightarrow> world" where
  "put_metadata w p m =
     (case dirs w p of None \<Rightarrow> w
      | Some d \<Rightarrow> w\<lparr>dirs := (dirs w)(p \<mapsto> d\<lparr>metadata_json := m\<rparr>)\<rparr>)"

text \<open>JavaScript's truthiness of an optional string and of an optional number.\<close>

definition truthy :: "string option \<Rightarrow> bool" where
  "truthy x = (case x of None \<Rightarrow> False | Some s \<Rightarrow> s \<noteq> [])"

definition truthy_num :: "int option \<Rightarrow> bool" where
  "truthy_num x = (case x of None \<Rightarrow> False | Some n \<Rightarrow> n \<noteq> 0)"

text \<open>\<open>getLockStatus\<close>: a missing or unreadable file is no lock.\<close>

definition getLockStatus :: "world \<Rightarrow> string \<Rightarrow> string option" where
  "getLockStatus w wtPath =
     (case read_metadata w wtPath of NoFile \<Rightarrow> None | Corrupt \<Rightarrow> None | Doc d \<Rightarrow> lockedBy d)"

section \<open>Lock manager\<close>

text \<open>\<open>now\<close> is the value of \<open>new Date().toISOString()\<close> at the call.\<close>

definition lockWorktree :: "string \<Rightarrow> string \<Rightarrow> string \<Rightarrow> world \<Rightarrow> (error + unit) \<times> world" where
  "lockWorktree now feature agentId w =
     (let wtPath = getWorktreeDir (baseDir w) feature in
      if dirs w wtPath = None then (Inl (NotFound feature), w)
      else
        (case getLockStatus w wtPath of
           Some currentLock \<Rightarrow>
             if currentLock \<noteq> [] \<and> currentLock \<noteq> agentId then (Inl (LockConflict currentLock), w)
             else (Inr (), put_metadata w wtPath
                     (Doc (empty_metadata\<lparr>lockedBy := Some agentId, timestamp := Some now\<rparr>)))
         | None \<Rightarrow>
             (Inr (), put_metadata w wtPath
                (Doc (empty_metadata\<lparr>lockedBy := Some agentId, timestamp := Some now\<rparr>)))))"

definition unlockWorktree :: "string \<Rightarrow> string \<Rightarrow> bool \<Rightarrow> world \<Rightarrow> (error + unit) \<times> world" where
  "unlockWorktree feature agentId force w =
     (let wtPath = getWorktreeDir (baseDir w) feature in
      if dirs w wtPath = None then (Inl (NotFound feature), w)
      else
        (case getLockStatus w wtPath of
           None \<Rightarrow> (Inr (), w)
         | Some currentLock \<Rightarrow>
             if currentLock = [] then (Inr (), w)
             else if currentLock \<noteq> agentId \<and> \<not> force then (Inl (LockConflict currentLock), w)
             else if read_metadata w wtPath \<noteq> NoFile then (Inr (), put_metadata w wtPath NoFile)
             else (Inr (), w)))"

definition handoff :: "string \<Rightarrow> string \<Rightarrow> string \<Rightarrow> world \<Rightarrow> (error + unit) \<times> world" where
  "handoff now feature toAgentId w =
     (let wtPath = getWorktreeDir (baseDir w) feature in
      if dirs w wtPath = None then (Inl (NotFound feature), w)
      else
        (case read_metadata w wtPath of
           Corrupt \<Rightarrow> (Inl JsonSyntaxError, w)
         | NoFile \<Rightarrow>
             (Inr (), put_metadata w wtPath
                (Doc (empty_metadata\<lparr>lockedBy := Some toAgentId, timestamp := Some now\<rparr>)))
         | Doc data \<Rightarrow>
             (Inr (), put_metadata w wtPath
                (Doc (data\<lparr>lockedBy := Some toAgentId, timestamp := Some now\<rparr>)))))"

section \<open>Checkpoint manager\<close>

text \<open>
  \<open>checkpointRestore\<close>. The result is the field \<open>restoredTo\<close> of the object returned,
  \<open>None\<close> when it is \<open>undefined\<close>: the source reads \<open>data.checkpointBase\<close> for it after
  the two \<open>delete\<close> statements.
\<close>

definition checkpointRestore :: "runner \<Rightarrow> string \<Rightarrow> world \<Rightarrow> (error + string option) \<times> world" where
  "checkpointRestore R feature w =
     (let wtPath = getWorktreeDir (baseDir w) feature in
      if dirs w wtPath = None then (Inl (NotFound feature), w)
      else
        (case read_metadata w wtPath of
           NoFile \<Rightarrow> (Inl (NoCheckpoints feature), w)
         | Corrupt \<Rightarrow> (Inl (InvalidMetadata feature), w)
         | Doc data \<Rightarrow>
             (case checkpointBase data of
                None \<Rightarrow> (Inl (NoRestorePoint feature), w)
              | Some base \<Rightarrow>
                  if base = [] then (Inl (NoRestorePoint feature), w)
                  else
                    (case exec R (''git reset --hard '' @ base) wtPath w of
                       (Inl msg, w') \<Rightarrow>
                         (Inl (CommandFailure (''Failed to restore checkpoint: '' @ msg)), w')
                     | (Inr _, w') \<Rightarrow>
                         (let data' = data\<lparr>lastCheckpoint := None, checkpointBase := None\<rparr>
                          in (Inr (checkpointBase data'), put_metadata w' wtPath (Doc data')))))))"

section \<open>Worktree registry\<close>

record WorktreeInfo =
  wt_path :: string
  wt_branch :: string
  wt_isClean :: bool
  wt_lockedBy :: "string option"

text \<open>\<open>isClean\<close>: a failing status command means not clean.\<close>

definition isClean :: "runner \<Rightarrow> string \<Rightarrow> world \<Rightarrow> bool \<times> world" where
  "isClean R wtPath w =
     (case exec R ''git status --porcelain'' wtPath w of
        (Inl msg, w') \<Rightarrow> (False, w')
      | (Inr output, w') \<Rightarrow> (length (status_lines output) = 0, w'))"

text \<open>The entry of \<open>git worktree list --porcelain\<close> being read: \<open>currentWt\<close>.\<close>

record PartialWt =
  cur_path :: "string option"
  cur_branch :: "string option"

text \<open>
  An entry is kept when it has a path and a branch and its path mentions \<open>.worktrees\<close>;
  its cleanliness and lock owner are read at that moment.
\<close>

definition push_current ::
  "runner \<Rightarrow> PartialWt \<Rightarrow> WorktreeInfo list \<Rightarrow> world \<Rightarrow> WorktreeInfo list \<times> world" where
  "push_current R cur worktrees w =
     (case cur_path cur of
        None \<Rightarrow> (worktrees, w)
      | Some p \<Rightarrow>
          (case cur_branch cur of
             None \<Rightarrow> (worktrees, w)
           | Some b \<Rightarrow>
               if p \<noteq> [] \<and> b \<noteq> [] \<and> str_includes ''.worktrees'' p then
                 (case isClean R p w of
                    (clean, w') \<Rightarrow>
                      (worktrees @ [\<lparr>wt_path = p, wt_branch = b, wt_isClean = clean,
                          wt_lockedBy = getLockStatus w' p\<rparr>], w'))
               else (worktrees, w)))"

fun list_loop ::
  "runner \<Rightarrow> string list \<Rightarrow> PartialWt \<Rightarrow> WorktreeInfo list \<Rightarrow> world \<Rightarrow> WorktreeInfo list \<times> world"
  where
  "list_loop R [] cur worktrees w = push_current R cur worktrees w"
| "list_loop R (line # lines) cur worktrees w =
     (if startsWith ''worktree '' line then
        (case push_current R cur worktrees w of
           (worktrees', w') \<Rightarrow>
             list_loop R lines
               \<lparr>cur_path = Some (trim (replace_first ''worktree '' [] line)), cur_branch = None\<rparr>
               worktrees' w')
      else if startsWith ''branch '' line then
        list_loop R lines
          (cur\<lparr>cur_branch :=
             Some (replace_first ''refs/heads/'' [] (trim (replace_first ''branch '' [] line)))\<rparr>)
          worktrees w
      else list_loop R lines cur worktrees w)"

definition listWorktrees :: "runner \<Rightarrow> world \<Rightarrow> (error + WorktreeInfo list) \<times> world" where
  "listWorktrees R w =
     (case exec R ''git worktree list --porcelain'' (baseDir w) w of
        (Inl msg, w') \<Rightarrow> (Inl (CommandFailure msg), w')
      | (Inr output, w') \<Rightarrow>
          (case list_loop R (split_lines output) \<lparr>cur_path = None, cur_branch = None\<rparr> [] w' of
             (worktrees, w'') \<Rightarrow> (Inr worktrees, w'')))"

section \<open>Conflict status\<close>

definition status :: "runner \<Rightarrow> string \<Rightarrow> world \<Rightarrow> (error + StatusResult) \<times> world" where
  "status R feature w =
     (let wtPath = getWorktreeDir (baseDir w) feature in
      if dirs w wtPath = None then (Inl (NotFound feature), w)
      else
        (case exec R ''git status --porcelain'' wtPath w of
           (Inl msg, w') \<Rightarrow> (Inl (CommandFailure (''Failed to get status: '' @ msg)), w')
         | (Inr output, w') \<Rightarrow> (Inr (status_parse (status_lines output)), w')))"

section \<open>Garbage collection\<close>

text \<open>The branches a \<open>git branch --merged\<close> output names.\<close>

definition branch_names :: "string \<Rightarrow> string list" where
  "branch_names output = map (\<lambda>b. trim (replace_first ''*'' [] b)) (split_lines output)"

text \<open>
  \<open>isMerged\<close>: the remote list is asked first, the local one only when the branch is not
  in the remote one. \<open>Inl\<close> is the exception of a failing command.
\<close>

definition gc_isMerged :: "runner \<Rightarrow> string \<Rightarrow> string \<Rightarrow> world \<Rightarrow> (string + bool) \<times> world" where
  "gc_isMerged R base branch w =
     (case exec R (''git branch --merged origin/'' @ base) (baseDir w) w of
        (Inl msg, w1) \<Rightarrow> (Inl msg, w1)
      | (Inr out1, w1) \<Rightarrow>
          if branch \<in> set (branch_names out1) then (Inr True, w1)
          else
            (case exec R (''git branch --merged '' @ base) (baseDir w1) w1 of
               (Inl msg, w2) \<Rightarrow> (Inl msg, w2)
             | (Inr out2, w2) \<Rightarrow> (Inr (branch \<in> set (branch_names out2)), w2)))"

text \<open>
  The body of the \<open>try\<close> for one worktree: \<open>Inr True\<close> when its branch was pushed to
  \<open>removed\<close>, \<open>Inr False\<close> when nothing was to do, \<open>Inl\<close> the exception that the \<open>catch\<close>
  swallows.
\<close>

definition gc_try :: "runner \<Rightarrow> string \<Rightarrow> WorktreeInfo \<Rightarrow> world \<Rightarrow> (string + bool) \<times> world" where
  "gc_try R base wt w =
     (case gc_isMerged R base (wt_branch wt) w of
        (Inl msg, w1) \<Rightarrow> (Inl msg, w1)
      | (Inr isMerged, w1) \<Rightarrow>
          if isMerged \<and> wt_isClean wt then
            (if \<not> truthy (getLockStatus w1 (wt_path wt)) then
               (case exec R (''git worktree remove '' @ wt_path wt) (baseDir w1) w1 of
                  (Inl msg, w2) \<Rightarrow> (Inl msg, w2)
                | (Inr _, w2) \<Rightarrow>
                    (case exec R (''git branch -d '' @ wt_branch wt) (baseDir w2) w2 of
                       (Inl msg, w3) \<Rightarrow> (Inl msg, w3)
                     | (Inr _, w3) \<Rightarrow> (Inr True, w3)))
             else (Inr False, w1))
          else (Inr False, w1))"

fun gc_loop ::
  "runner \<Rightarrow> string \<Rightarrow> WorktreeInfo list \<Rightarrow> string list \<Rightarrow> world \<Rightarrow> string list \<times> world" where
  "gc_loop R base [] removed w = (removed, w)"
| "gc_loop R base (wt # worktrees) removed w =
     (case gc_try R base wt w of
        (Inr True, w') \<Rightarrow> gc_loop R base worktrees (removed @ [wt_branch wt]) w'
      | (Inr False, w') \<Rightarrow> gc_loop R base worktrees removed w'
      | (Inl msg, w') \<Rightarrow> gc_loop R base worktrees removed w')"

text \<open>\<open>gc\<close>: the list of worktrees is taken first, outside any \<open>try\<close>; the fetch may fail.\<close>

definition gc :: "runner \<Rightarrow> string \<Rightarrow> world \<Rightarrow> (error + string list) \<times> world" where
  "gc R base w =
     (case listWorktrees R w of
        (Inl e, w1) \<Rightarrow> (Inl e, w1)
      | (Inr worktrees, w1) \<Rightarrow>
          (case exec R (''git fetch origin '' @ base) (baseDir w1) w1 of
             (_, w2) \<Rightarrow>
               (case gc_loop R base worktrees [] w2 of
                  (removed, w3) \<Rightarrow> (Inr removed, w3))))"

section \<open>Port leases\<close>

text \<open>The ports found in the metadata of the listed worktrees: \<open>usedPorts\<close>.\<close>

fun collect_ports :: "world \<Rightarrow> WorktreeInfo list \<Rightarrow> int list \<Rightarrow> int list" where
  "collect_ports w [] usedPorts = usedPorts"
| "collect_ports w (wt # worktrees) usedPorts =
     collect_ports w worktrees
       (case read_metadata w (wt_path wt) of
          NoFile \<Rightarrow> usedPorts
        | Corrupt \<Rightarrow> usedPorts
        | Doc d \<Rightarrow>
            (case port d of
               None \<Rightarrow> usedPorts
             | Some p \<Rightarrow> if p \<noteq> 0 then List.insert p usedPorts else usedPorts))"

text \<open>The scan of 8000 to 8050: the first port not in use, or \<open>-1\<close>.\<close>

function first_free :: "int \<Rightarrow> int list \<Rightarrow> int" where
  "first_free p usedPorts =
     (if p \<le> 8050 then (if p \<notin> set usedPorts then p else first_free (p + 1) usedPorts)
      else - 1)"
  by pat_completeness auto
termination
  by (relation "measure (\<lambda>(p, usedPorts). nat (8051 - p))") auto

declare first_free.simps [simp del]

text \<open>
  The line \<open>PORT=...\<close> of \<open>.env.local\<close>: the regular expression \<open>/^PORT=.*$/m\<close> matches
  from a line start to the next line terminator, and the first match is replaced.
\<close>

definition is_line_terminator :: "char \<Rightarrow> bool" where
  "is_line_terminator c = (c = LF \<or> c = CR)"

fun replace_port_line :: "bool \<Rightarrow> string \<Rightarrow> string \<Rightarrow> string option" where
  "replace_port_line atStart line [] = None"
| "replace_port_line atStart line (c # cs) =
     (if atStart \<and> startsWith ''PORT='' (c # cs) then
        Some (line @ dropWhile (\<lambda>x. \<not> is_line_terminator x) (c # cs))
      else map_option ((#) c) (replace_port_line (is_line_terminator c) line cs))"

definition upsert_port :: "string \<Rightarrow> int \<Rightarrow> string" where
  "upsert_port envContent assignedPort =
     (let line = ''PORT='' @ show_int assignedPort;
          envContent' =
            (case replace_port_line True line envContent of
               Some replaced \<Rightarrow> replaced
             | None \<Rightarrow> envContent @ [LF] @ line @ [LF])
      in trim envContent' @ [LF])"

definition write_env :: "world \<Rightarrow> string \<Rightarrow> int \<Rightarrow> world" where
  "write_env w p assignedPort =
     (case dirs w p of
        None \<Rightarrow> w
      | Some d \<Rightarrow>
          w\<lparr>dirs := (dirs w)(p \<mapsto> d\<lparr>env_local :=
            Some (upsert_port (case env_local d of None \<Rightarrow> [] | Some c \<Rightarrow> c) assignedPort)\<rparr>)\<rparr>)"

definition portRequest :: "runner \<Rightarrow> string \<Rightarrow> world \<Rightarrow> (error + int) \<times> world" where
  "portRequest R feature w =
     (let wtPath = getWorktreeDir (baseDir w) feature in
      if dirs w wtPath = None then (Inl (NotFound feature), w)
      else
        (case listWorktrees R w of
           (Inl e, w1) \<Rightarrow> (Inl e, w1)
         | (Inr worktrees, w1) \<Rightarrow>
             (let usedPorts = collect_ports w1 worktrees [];
                  assignedPort = first_free 8000 usedPorts
              in if assignedPort = - 1 then (Inl RangeExhausted, w1)
                 else
                   (case read_metadata w1 wtPath of
                      Corrupt \<Rightarrow> (Inl JsonSyntaxError, w1)
                    | NoFile \<Rightarrow>
                        (Inr assignedPort,
                         write_env (put_metadata w1 wtPath
                           (Doc (empty_metadata\<lparr>port := Some assignedPort\<rparr>))) wtPath assignedPort)
                    | Doc data \<Rightarrow>
                        (Inr assignedPort,
                         write_env (put_metadata w1 wtPath
                           (Doc (data\<lparr>port := Some assignedPort\<rparr>))) wtPath assignedPort)))))"

definition portRelease :: "string \<Rightarrow> world \<Rightarrow> (error + unit) \<times> world" where
  "portRelease feature w =
     (let wtPath = getWorktreeDir (baseDir w) feature in
      if dirs w wtPath = None then (Inl (NotFound feature), w)
      else
        (case read_metadata w wtPath of
           NoFile \<Rightarrow> (Inr (), w)
         | Corrupt \<Rightarrow> (Inl JsonSyntaxError, w)
         | Doc data \<Rightarrow>
             if truthy_num (port data) then (Inr (), put_metadata w wtPath (Doc (data\<lparr>port := None\<rparr>)))
             else (Inr (), w)))"

section \<open>Notions of the specification\<close>

text \<open>
  The classification of a status code as the specification words it, in priority order:
  a conflict code; else a code with \<open>M\<close>; else a code with \<open>A\<close> or the code \<open>??\<close>; else
  a code with \<open>D\<close>.
\<close>

datatype status_kind = Conflict | Modified | Added | Deleted | Unclassified

definition status_kind_of :: "string \<Rightarrow> status_kind" where
  "status_kind_of code =
     (if code \<in> set [''UU'', ''AA'', ''DD'', ''AU'', ''UA'', ''DU'', ''UD''] then Conflict
      else if CHR ''M'' \<in> set code then Modified
      else if CHR ''A'' \<in> set code \<or> code = ''??'' then Added
      else if CHR ''D'' \<in> set code then Deleted
      else Unclassified)"

text \<open>The files of the lines of one kind, in the order of the lines.\<close>

definition files_of_kind :: "status_kind \<Rightarrow> string list \<Rightarrow> string list" where
  "files_of_kind k lines = map (drop 3) (filter (\<lambda>line. status_kind_of (take 2 line) = k) lines)"


text \<open>A worktree is locked by another agent: its lock owner is set, not empty, and not the agent.\<close>

definition locked_by_other :: "world \<Rightarrow> string \<Rightarrow> string \<Rightarrow> bool" where
  "locked_by_other w wtPath agentId =
     (case getLockStatus w wtPath of None \<Rightarrow> False | Some l \<Rightarrow> l \<noteq> [] \<and> l \<noteq> agentId)"

text \<open>The document a read-modify-write starts from: the empty one when there is no file.\<close>

definition doc_or_empty :: "metafile \<Rightarrow> metadata" where
  "doc_or_empty m = (case m of Doc data \<Rightarrow> data | NoFile \<Rightarrow> empty_metadata | Corrupt \<Rightarrow> empty_metadata)"

text \<open>
  Garbage collection, in the words of the specification. A command succeeds in a state
  when the runner answers it with an output; the state after it has the command in the
  log. All of these commands run in the repository directory.
\<close>

definition command_ok :: "runner \<Rightarrow> string \<Rightarrow> world \<Rightarrow> bool" where
  "command_ok R cmd w = (case R (issued w) cmd (baseDir w) of Inl msg \<Rightarrow> False | Inr out \<Rightarrow> True)"

definition after_command :: "string \<Rightarrow> world \<Rightarrow> world" where
  "after_command cmd w = w\<lparr>issued := issued w @ [(cmd, baseDir w)]\<rparr>"

text \<open>
  The merged-branch list is the listing that \<open>git branch --merged\<close> prints, one line for
  each branch: a marker of two columns (\<open>* \<close> for the current branch, \<open>+ \<close> for a branch
  that is checked out in another worktree, blank otherwise) and then the name of the
  branch.
\<close>

definition listed_branches :: "string \<Rightarrow> string list" where
  "listed_branches out = map (drop 2) (filter (\<lambda>line. line \<noteq> []) (split_lines out))"

text \<open>The command succeeds and its listing has the branch.\<close>

definition names_branch :: "runner \<Rightarrow> string \<Rightarrow> string \<Rightarrow> world \<Rightarrow> bool" where
  "names_branch R cmd branch w =
     (case R (issued w) cmd (baseDir w) of
        Inl msg \<Rightarrow> False
      | Inr out \<Rightarrow> branch \<in> set (listed_branches out))"

text \<open>
  Merged: the branch is in the merged-branch list of the remote base, or in that of the
  local base, which is asked after it.
\<close>

definition gc_merged :: "runner \<Rightarrow> string \<Rightarrow> string \<Rightarrow> world \<Rightarrow> bool" where
  "gc_merged R base branch w =
     (names_branch R (''git branch --merged origin/'' @ base) branch w
      \<or> names_branch R (''git branch --merged '' @ base) branch
           (after_command (''git branch --merged origin/'' @ base) w))"

text \<open>The state after the merge check: the local list is asked when the remote one was
  obtained and does not have the branch.\<close>

definition gc_after_check :: "runner \<Rightarrow> string \<Rightarrow> string \<Rightarrow> world \<Rightarrow> world" where
  "gc_after_check R base branch w =
     (if command_ok R (''git branch --merged origin/'' @ base) w
         \<and> \<not> names_branch R (''git branch --merged origin/'' @ base) branch w
      then after_command (''git branch --merged '' @ base)
             (after_command (''git branch --merged origin/'' @ base) w)
      else after_command (''git branch --merged origin/'' @ base) w)"

text \<open>
  Locked, for the garbage collection: the metadata document of the worktree is readable
  and its \<open>lockedBy\<close> is an agent identifier that is not empty. A document whose
  \<open>lockedBy\<close> is the empty string, as \<open>lock\<close> writes it for the empty agent identifier,
  is not a lock in this sense.
\<close>

definition gc_locked :: "world \<Rightarrow> string \<Rightarrow> bool" where
  "gc_locked w wtPath =
     (case read_metadata w wtPath of
        NoFile \<Rightarrow> False
      | Corrupt \<Rightarrow> False
      | Doc d \<Rightarrow> (case lockedBy d of None \<Rightarrow> False | Some agent \<Rightarrow> agent \<noteq> []))"

text \<open>Eligible: merged and clean and unlocked.\<close>

definition gc_eligible :: "runner \<Rightarrow> string \<Rightarrow> WorktreeInfo \<Rightarrow> world \<Rightarrow> bool" where
  "gc_eligible R base wt w =
     (gc_merged R base (wt_branch wt) w \<and> wt_isClean wt \<and> \<not> gc_locked w (wt_path wt))"

text \<open>
  The removal succeeds: no command that is run for the worktree fails. The merged-branch
  list of the remote base is obtained, the worktree is removed and then its branch is
  deleted.
\<close>

definition gc_removal_succeeds :: "runner \<Rightarrow> string \<Rightarrow> WorktreeInfo \<Rightarrow> world \<Rightarrow> bool" where
  "gc_removal_succeeds R base wt w =
     (command_ok R (''git branch --merged origin/'' @ base) w
      \<and> command_ok R (''git worktree remove '' @ wt_path wt) (gc_after_check R base (wt_branch wt) w)
      \<and> command_ok R (''git branch -d '' @ wt_branch wt)
           (after_command (''git worktree remove '' @ wt_path wt)
              (gc_after_check R base (wt_branch wt) w)))"

text \<open>The worktrees of a run, each with the state in which the run comes to it.\<close>

fun gc_visits :: "runner \<Rightarrow> string \<Rightarrow> WorktreeInfo list \<Rightarrow> world \<Rightarrow> (WorktreeInfo \<times> world) list" where
  "gc_visits R base [] w = []"
| "gc_visits R base (wt # worktrees) w =
     (wt, w) # gc_visits R base worktrees (snd (gc_try R base wt w))"




text \<open>
  Three notions for the proofs: a line without the carriage return that ends it, the name
  that \<open>branch_names\<close> reads in a line, and the fact that \<open>gc\<close> pushes the branch of a
  worktree to \<open>removed\<close> when it comes to it in a state.
\<close>

definition gc_pushed :: "runner \<Rightarrow> string \<Rightarrow> WorktreeInfo \<times> world \<Rightarrow> bool" where
  "gc_pushed R base v = (fst (gc_try R base (fst v) (snd v)) = Inr True)"



text \<open>
  Port leases, in the words of the specification. The port a worktree holds is the port
  field of its metadata document, when the document is readable and the field counts as
  set (a number other than zero).
\<close>

definition held_port :: "world \<Rightarrow> string \<Rightarrow> int option" where
  "held_port w wtPath =
     (case read_metadata w wtPath of
        NoFile \<Rightarrow> None
      | Corrupt \<Rightarrow> None
      | Doc d \<Rightarrow> (case port d of None \<Rightarrow> None | Some p \<Rightarrow> if p \<noteq> 0 then Some p else None))"

text \<open>The ports held by the worktrees at the given paths.\<close>

definition held_ports :: "world \<Rightarrow> string list \<Rightarrow> int list" where
  "held_ports w paths = List.map_filter (held_port w) paths"

text \<open>A run of requests, one after the other, and the ports it grants.\<close>

fun portRequests :: "runner \<Rightarrow> string list \<Rightarrow> world \<Rightarrow> (error + int) list \<times> world" where
  "portRequests R [] w = ([], w)"
| "portRequests R (feature # features) w =
     (case portRequest R feature w of
        (r, w') \<Rightarrow> (case portRequests R features w' of (rs, w'') \<Rightarrow> (r # rs, w'')))"

fun granted :: "(error + int) list \<Rightarrow> int list" where
  "granted [] = []"
| "granted (Inl e # rs) = granted rs"
| "granted (Inr p # rs) = p # granted rs"

section \<open>Example repositories\<close>

text \<open>A worktree in the middle of a conflict, and a runner that reports it.\<close>

definition status_output :: string where
  "status_output = ''UU file.txt'' @ [LF] @ '' M other.txt'' @ [LF] @ ''?? new.txt'' @ [LF]
     @ ''?? metadata.json'' @ [LF]"

definition R_status :: runner where
  "R_status h cmd cwd =
     (if cmd = ''git status --porcelain'' then Inr status_output else Inl ''fatal'')"

definition w_status :: world where
  "w_status = \<lparr>baseDir = ''/repo'',
     dirs = [''/repo/.worktrees/feature-x'' \<mapsto> \<lparr>metadata_json = NoFile, env_local = None\<rparr>],
     issued = []\<rparr>"





text \<open>
  The same worktree during a merge: \<open>README.md\<close> is modified and not staged, and the file
  \<open>src/metadata.json\<close> of the project is in conflict.
\<close>

definition merge_output :: string where
  "merge_output = '' M README.md'' @ [LF] @ ''UU src/metadata.json'' @ [LF]"

definition R_merge :: runner where
  "R_merge h cmd cwd =
     (if cmd = ''git status --porcelain'' then Inr merge_output else Inl ''fatal'')"

text \<open>
  A worktree whose metadata document has every field set, one with no metadata file and
  one whose metadata file does not parse; a runner for which every command succeeds.
\<close>

definition full_doc :: metadata where
  "full_doc = \<lparr>lockedBy = Some ''agentA'', timestamp = Some ''2026-01-01T00:00:00.000Z'',
     contextMsg = Some ''fix login'', port = Some 8000, lastCheckpoint = Some ''b2b2b2b'',
     checkpointBase = Some ''a1a1a1a''\<rparr>"

definition w_full :: world where
  "w_full = \<lparr>baseDir = ''/repo'',
     dirs = [''/repo/.worktrees/feature-x'' \<mapsto>
       \<lparr>metadata_json = Doc full_doc, env_local = Some (''PORT=8000'' @ [LF])\<rparr>],
     issued = []\<rparr>"

definition w_fresh :: world where
  "w_fresh = \<lparr>baseDir = ''/repo'',
     dirs = [''/repo/.worktrees/feature-x'' \<mapsto> \<lparr>metadata_json = NoFile, env_local = None\<rparr>],
     issued = []\<rparr>"

definition w_corrupt :: world where
  "w_corrupt = \<lparr>baseDir = ''/repo'',
     dirs = [''/repo/.worktrees/feature-x'' \<mapsto> \<lparr>metadata_json = Corrupt, env_local = None\<rparr>],
     issued = []\<rparr>"

definition R_ok :: runner where
  "R_ok h cmd cwd = Inr []"

text \<open>
  A repository for the garbage collection: \<open>held\<close> is merged and locked, \<open>dirty\<close> is
  merged and has a modified file, \<open>stuck\<close> is merged, clean and unlocked but cannot be
  removed, \<open>done\<close> is merged into the local base only. There is no remote to fetch from.
  The merged-branch lists are those of a git that does not mark the branches checked out
  in other worktrees.
\<close>

definition gc_listing :: string where
  "gc_listing = ''worktree /repo'' @ [LF] @ ''HEAD 1a2b'' @ [LF] @ ''branch refs/heads/main'' @ [LF]
     @ [LF] @ ''worktree /repo/.worktrees/held'' @ [LF] @ ''HEAD 1a2b'' @ [LF]
     @ ''branch refs/heads/held'' @ [LF]
     @ [LF] @ ''worktree /repo/.worktrees/dirty'' @ [LF] @ ''HEAD 1a2b'' @ [LF]
     @ ''branch refs/heads/dirty'' @ [LF]
     @ [LF] @ ''worktree /repo/.worktrees/stuck'' @ [LF] @ ''HEAD 1a2b'' @ [LF]
     @ ''branch refs/heads/stuck'' @ [LF]
     @ [LF] @ ''worktree /repo/.worktrees/done'' @ [LF] @ ''HEAD 1a2b'' @ [LF]
     @ ''branch refs/heads/done'' @ [LF]"

definition gc_merged_remote :: string where
  "gc_merged_remote = ''  held'' @ [LF] @ ''  dirty'' @ [LF] @ ''  stuck'' @ [LF] @ ''* main'' @ [LF]"

definition gc_merged_local :: string where
  "gc_merged_local = ''  alpha'' @ [LF] @ ''  done'' @ [LF] @ ''* main'' @ [LF]"

definition R_gc :: runner where
  "R_gc h cmd cwd =
     (if cmd = ''git worktree list --porcelain'' then Inr gc_listing
      else if cmd = ''git status --porcelain'' then
        (if cwd = ''/repo/.worktrees/dirty'' then Inr ('' M notes.txt'' @ [LF]) else Inr [])
      else if cmd = ''git fetch origin main'' then Inl ''fatal: no remote''
      else if cmd = ''git branch --merged origin/main'' then Inr gc_merged_remote
      else if cmd = ''git branch --merged main'' then Inr gc_merged_local
      else if cmd = ''git worktree remove /repo/.worktrees/stuck'' then Inl ''fatal: locked''
      else Inr [])"

definition w_gc :: world where
  "w_gc = \<lparr>baseDir = ''/repo'',
     dirs = [''/repo/.worktrees/held'' \<mapsto>
         \<lparr>metadata_json = Doc (empty_metadata\<lparr>lockedBy := Some ''agentA'',
            timestamp := Some ''2026-01-01T00:00:00.000Z''\<rparr>), env_local = None\<rparr>,
       ''/repo/.worktrees/dirty'' \<mapsto> \<lparr>metadata_json = NoFile, env_local = None\<rparr>,
       ''/repo/.worktrees/stuck'' \<mapsto> \<lparr>metadata_json = NoFile, env_local = None\<rparr>,
       ''/repo/.worktrees/done'' \<mapsto> \<lparr>metadata_json = NoFile, env_local = None\<rparr>],
     issued = []\<rparr>"

text \<open>The worktrees that \<open>listWorktrees\<close> keeps of this listing, in a state \<open>w\<close>.\<close>

definition gc_listed :: "world \<Rightarrow> WorktreeInfo list" where
  "gc_listed w =
     [\<lparr>wt_path = ''/repo/.worktrees/held'', wt_branch = ''held'', wt_isClean = True,
        wt_lockedBy = getLockStatus w ''/repo/.worktrees/held''\<rparr>,
      \<lparr>wt_path = ''/repo/.worktrees/dirty'', wt_branch = ''dirty'', wt_isClean = False,
        wt_lockedBy = getLockStatus w ''/repo/.worktrees/dirty''\<rparr>,
      \<lparr>wt_path = ''/repo/.worktrees/stuck'', wt_branch = ''stuck'', wt_isClean = True,
        wt_lockedBy = getLockStatus w ''/repo/.worktrees/stuck''\<rparr>,
      \<lparr>wt_path = ''/repo/.worktrees/done'', wt_branch = ''done'', wt_isClean = True,
        wt_lockedBy = getLockStatus w ''/repo/.worktrees/done''\<rparr>]"


text \<open>
  The same repository with a git that marks the branches checked out in other worktrees,
  and a runner for which every command fails.
\<close>

definition gc_marked_remote :: string where
  "gc_marked_remote = ''+ dirty'' @ [LF] @ ''+ held'' @ [LF] @ ''* main'' @ [LF] @ ''+ stuck'' @ [LF]"

definition gc_marked_local :: string where
  "gc_marked_local = ''  alpha'' @ [LF] @ ''+ done'' @ [LF] @ ''* main'' @ [LF]"

definition R_marked :: runner where
  "R_marked h cmd cwd =
     (if cmd = ''git branch --merged origin/main'' then Inr gc_marked_remote
      else if cmd = ''git branch --merged main'' then Inr gc_marked_local
      else R_gc h cmd cwd)"


text \<open>
  A repository for the port leases: the head of the worktree \<open>a\<close> is detached; \<open>b\<close>,
  \<open>c\<close> and \<open>d\<close> are on their branches, and \<open>c\<close> holds port 8000.
\<close>

definition ports_listing :: string where
  "ports_listing = ''worktree /repo'' @ [LF] @ ''HEAD 1a2b'' @ [LF] @ ''branch refs/heads/main'' @ [LF]
     @ [LF] @ ''worktree /repo/.worktrees/a'' @ [LF] @ ''HEAD 3c4d'' @ [LF] @ ''detached'' @ [LF]
     @ [LF] @ ''worktree /repo/.worktrees/b'' @ [LF] @ ''HEAD 1a2b'' @ [LF]
     @ ''branch refs/heads/b'' @ [LF]
     @ [LF] @ ''worktree /repo/.worktrees/c'' @ [LF] @ ''HEAD 1a2b'' @ [LF]
     @ ''branch refs/heads/c'' @ [LF]
     @ [LF] @ ''worktree /repo/.worktrees/d'' @ [LF] @ ''HEAD 1a2b'' @ [LF]
     @ ''branch refs/heads/d'' @ [LF]"

definition R_ports :: runner where
  "R_ports h cmd cwd =
     (if cmd = ''git worktree list --porcelain'' then Inr ports_listing
      else if cmd = ''git status --porcelain'' then Inr []
      else Inl ''fatal'')"

definition w_ports :: world where
  "w_ports = \<lparr>baseDir = ''/repo'',
     dirs = [''/repo/.worktrees/a'' \<mapsto> \<lparr>metadata_json = NoFile, env_local = None\<rparr>,
       ''/repo/.worktrees/b'' \<mapsto> \<lparr>metadata_json = NoFile, env_local = None\<rparr>,
       ''/repo/.worktrees/c'' \<mapsto>
         \<lparr>metadata_json = Doc (empty_metadata\<lparr>port := Some 8000\<rparr>),
          env_local = Some (''PORT=8000'' @ [LF])\<rparr>,
       ''/repo/.worktrees/d'' \<mapsto> \<lparr>metadata_json = NoFile, env_local = None\<rparr>],
     issued = []\<rparr>"

text \<open>The worktrees that \<open>listWorktrees\<close> keeps of this listing, in a state \<open>w\<close>.\<close>

definition ports_worktrees :: "world \<Rightarrow> WorktreeInfo list" where
  "ports_worktrees w =
     [\<lparr>wt_path = ''/repo/.worktrees/b'', wt_branch = ''b'', wt_isClean = True,
        wt_lockedBy = getLockStatus w ''/repo/.worktrees/b''\<rparr>,
      \<lparr>wt_path = ''/repo/.worktrees/c'', wt_branch = ''c'', wt_isClean = True,
        wt_lockedBy = getLockStatus w ''/repo/.worktrees/c''\<rparr>,
      \<lparr>wt_path = ''/repo/.worktrees/d'', wt_branch = ''d'', wt_isClean = True,
        wt_lockedBy = getLockStatus w ''/repo/.worktrees/d''\<rparr>]"

text \<open>The same repository when the detached worktree \<open>a\<close> holds port 8001.\<close>

definition w_leased :: world where
  "w_leased = \<lparr>baseDir = ''/repo'',
     dirs = [''/repo/.worktrees/a'' \<mapsto>
         \<lparr>metadata_json = Doc (empty_metadata\<lparr>port := Some 8001\<rparr>),
          env_local = Some (''PORT=8001'' @ [LF])\<rparr>,
       ''/repo/.worktrees/b'' \<mapsto> \<lparr>metadata_json = NoFile, env_local = None\<rparr>,
       ''/repo/.worktrees/c'' \<mapsto>
         \<lparr>metadata_json = Doc (empty_metadata\<lparr>port := Some 8000\<rparr>),
          env_local = Some (''PORT=8000'' @ [LF])\<rparr>,
       ''/repo/.worktrees/d'' \<mapsto> \<lparr>metadata_json = NoFile, env_local = None\<rparr>],
     issued = []\<rparr>"

text \<open>
  A repository in which every port is taken: 51 worktrees named \<open>x\<close>, \<open>xx\<close>, \<open>xxx\<close> and so
  on, each on its branch, the one whose name has n letters holding port 7999 + n.
\<close>

definition many_names :: "string list" where
  "many_names = map (\<lambda>i. replicate (Suc i) CHR ''x'') [0..<51]"

definition worktree_dir :: "string \<Rightarrow> string" where
  "worktree_dir name = ''/repo/.worktrees/'' @ name"

definition worktree_line :: "string \<Rightarrow> string" where
  "worktree_line name = ''worktree '' @ worktree_dir name"

definition branch_line :: "string \<Rightarrow> string" where
  "branch_line name = ''branch refs/heads/'' @ name"

definition listing_entry :: "string \<Rightarrow> string list" where
  "listing_entry name = [worktree_line name, branch_line name]"

fun join_lines :: "string list \<Rightarrow> string" where
  "join_lines [] = []"
| "join_lines [l] = l"
| "join_lines (l # l' # ls) = l @ LF # join_lines (l' # ls)"

definition many_listing :: string where
  "many_listing = join_lines (concat (map listing_entry many_names))"

definition R_many :: runner where
  "R_many h cmd cwd =
     (if cmd = ''git worktree list --porcelain'' then Inr many_listing
      else if cmd = ''git status --porcelain'' then Inr []
      else Inl ''fatal'')"

definition many_dirs :: "string \<rightharpoonup> wtdir" where
  "many_dirs p =
     (if take 17 p = ''/repo/.worktrees/'' \<and> drop 17 p \<noteq> [] \<and> length (drop 17 p) \<le> 51
         \<and> list_all (\<lambda>c. c = CHR ''x'') (drop 17 p)
      then Some \<lparr>metadata_json = Doc (empty_metadata\<lparr>port := Some (7999 + int (length (drop 17 p)))\<rparr>),
             env_local = None\<rparr>
      else None)"

definition w_many :: world where
  "w_many = \<lparr>baseDir = ''/repo'', dirs = many_dirs, issued = []\<rparr>"

text \<open>What \<open>listWorktrees\<close> makes of an entry of such a listing when the worktree is clean.\<close>

definition listed_info :: "world \<Rightarrow> string \<Rightarrow> WorktreeInfo" where
  "listed_info w name = \<lparr>wt_path = worktree_dir name, wt_branch = name,
     wt_isClean = True, wt_lockedBy = getLockStatus w (worktree_dir name)\<rparr>"

section \<open>Properties of the status parser\<close>

lemma status_kind_of_conflict: "(status_kind_of code = Conflict) = is_conflict_code code"
  by (simp add: status_kind_of_def is_conflict_code_def)

lemma status_line_conflicts:
  "st_conflicts (status_line r line) = st_conflicts r @ files_of_kind Conflict [line]"
  by (simp add: status_line_def files_of_kind_def status_kind_of_def is_conflict_code_def Let_def)

lemma status_line_modified:
  "st_modified (status_line r line) = st_modified r @ files_of_kind Modified [line]"
  by (simp add: status_line_def files_of_kind_def status_kind_of_def is_conflict_code_def Let_def)

lemma status_line_added:
  "st_added (status_line r line) = st_added r @ files_of_kind Added [line]"
  by (simp add: status_line_def files_of_kind_def status_kind_of_def is_conflict_code_def Let_def)

lemma status_line_deleted:
  "st_deleted (status_line r line) = st_deleted r @ files_of_kind Deleted [line]"
  by (simp add: status_line_def files_of_kind_def status_kind_of_def is_conflict_code_def Let_def)

lemma files_of_kind_Cons:
  "files_of_kind k (line # lines) = files_of_kind k [line] @ files_of_kind k lines"
  by (simp add: files_of_kind_def)

lemma status_each_conflicts:
  "st_conflicts (status_each r lines) = st_conflicts r @ files_of_kind Conflict lines"
proof (induction lines arbitrary: r)
  case Nil
  show ?case by (simp add: files_of_kind_def)
next
  case (Cons line lines)
  show ?case
    using Cons.IH [of "status_line r line"] files_of_kind_Cons [of Conflict line lines]
    by (simp add: status_line_conflicts)
qed

lemma status_each_modified:
  "st_modified (status_each r lines) = st_modified r @ files_of_kind Modified lines"
proof (induction lines arbitrary: r)
  case Nil
  show ?case by (simp add: files_of_kind_def)
next
  case (Cons line lines)
  show ?case
    using Cons.IH [of "status_line r line"] files_of_kind_Cons [of Modified line lines]
    by (simp add: status_line_modified)
qed

lemma status_each_added:
  "st_added (status_each r lines) = st_added r @ files_of_kind Added lines"
proof (induction lines arbitrary: r)
  case Nil
  show ?case by (simp add: files_of_kind_def)
next
  case (Cons line lines)
  show ?case
    using Cons.IH [of "status_line r line"] files_of_kind_Cons [of Added line lines]
    by (simp add: status_line_added)
qed

lemma status_each_deleted:
  "st_deleted (status_each r lines) = st_deleted r @ files_of_kind Deleted lines"
proof (induction lines arbitrary: r)
  case Nil
  show ?case by (simp add: files_of_kind_def)
next
  case (Cons line lines)
  show ?case
    using Cons.IH [of "status_line r line"] files_of_kind_Cons [of Deleted line lines]
    by (simp add: status_line_deleted)
qed

lemma status_parse_lists:
  "status_parse lines = \<lparr>st_isClean = (lines = []), st_conflicts = files_of_kind Conflict lines,
     st_modified = files_of_kind Modified lines, st_added = files_of_kind Added lines,
     st_deleted = files_of_kind Deleted lines\<rparr>"
  by (simp add: status_parse_def status_each_conflicts status_each_modified status_each_added
      status_each_deleted)

lemma conflict_example_lines:
  "status_lines (trim status_output) = [''UU file.txt'', '' M other.txt'', ''?? new.txt'']"
  by (simp add: status_lines_def status_output_def trim_def is_space_def LF_def CR_def
      cons_first_def startsWith_def)

lemma conflict_example_parse:
  "status_parse [''UU file.txt'', '' M other.txt'', ''?? new.txt''] =
     \<lparr>st_isClean = False, st_conflicts = [''file.txt''], st_modified = [''other.txt''],
      st_added = [''new.txt''], st_deleted = []\<rparr>"
  by (simp add: status_parse_lists files_of_kind_def status_kind_of_def)

lemma feature_x_dir: "getWorktreeDir ''/repo'' ''feature/x'' = ''/repo/.worktrees/feature-x''"
  by (simp add: getWorktreeDir_def normalize_feature_def is_alnum_dash_def)




text \<open>What \<open>status\<close> returns for a worktree that exists when the command succeeds.\<close>

lemma status_result:
  assumes "dirs w (getWorktreeDir (baseDir w) feature) \<noteq> None"
    and "R (issued w) ''git status --porcelain'' (getWorktreeDir (baseDir w) feature) = Inr out"
  shows "status R feature w =
     (Inr (status_parse (status_lines (trim out))),
      w\<lparr>issued := issued w @ [(''git status --porcelain'', getWorktreeDir (baseDir w) feature)]\<rparr>)"
  using assms by (simp add: status_def exec_def Let_def)



text \<open>
  The example of the specification: the lines \<open>UU file.txt\<close>, \<open> M other.txt\<close>,
  \<open>?? new.txt\<close> give conflicts \<open>file.txt\<close>, modified \<open>other.txt\<close>, added \<open>new.txt\<close>,
  nothing deleted and a false cleanliness flag, also when they come from the command with
  a line for the metadata file after them.
\<close>

lemma status_conflict_example:
  "fst (status R_status ''feature/x'' w_status) =
     Inr \<lparr>st_isClean = False, st_conflicts = [''file.txt''], st_modified = [''other.txt''],
      st_added = [''new.txt''], st_deleted = []\<rparr>"
proof -
  have "fst (status R_status ''feature/x'' w_status) =
      Inr (status_parse (status_lines (trim status_output)))"
    by (simp add: status_def w_status_def feature_x_dir exec_def R_status_def Let_def)
  then show ?thesis
    by (simp only: conflict_example_lines conflict_example_parse)
qed

lemma merge_lines:
  "split_lines (trim merge_output) = [''M README.md'', ''UU src/metadata.json'']"
  by (simp add: merge_output_def trim_def is_space_def LF_def CR_def cons_first_def)

text \<open>
  C9. The four lists are filled in the priority order of the specification
  (\<open>status_parse_lists\<close>), but \<open>status\<close> does not classify every status entry of the
  command output. In a worktree where \<open>README.md\<close> is modified and \<open>src/metadata.json\<close> is
  in conflict, the entries are \<open> M README.md\<close> and \<open>UU src/metadata.json\<close>: by the
  specification the conflicts are \<open>src/metadata.json\<close> and the modified files are
  \<open>README.md\<close>. \<open>status\<close> returns no conflict and the modified file \<open>EADME.md\<close>. The
  output is trimmed as a whole before it is split, so the first entry has lost the blank
  that starts its code; and a line is dropped as soon as it mentions \<open>metadata.json\<close>,
  also when it names another file than the metadata file of the worktree.
\<close>

theorem status_misreads_entries:
  "files_of_kind Conflict ['' M README.md'', ''UU src/metadata.json''] = [''src/metadata.json'']
   \<and> files_of_kind Modified ['' M README.md'', ''UU src/metadata.json''] = [''README.md'']
   \<and> fst (status R_merge ''feature/x'' w_status) =
        Inr \<lparr>st_isClean = False, st_conflicts = [], st_modified = [''EADME.md''], st_added = [],
          st_deleted = []\<rparr>"
proof -
  have d: "dirs w_status (getWorktreeDir (baseDir w_status) ''feature/x'') \<noteq> None"
    by (simp add: w_status_def feature_x_dir)
  have o: "R_merge (issued w_status) ''git status --porcelain''
      (getWorktreeDir (baseDir w_status) ''feature/x'') = Inr merge_output"
    by (simp add: R_merge_def)
  have kept: "status_lines (trim merge_output) = [''M README.md'']"
    unfolding status_lines_def merge_lines by (simp add: trim_def is_space_def startsWith_def)
  have "fst (status R_merge ''feature/x'' w_status) = Inr (status_parse [''M README.md''])"
    using status_result [where R = R_merge and w = w_status and feature = "''feature/x''"
        and out = merge_output, OF d o]
    by (simp add: kept)
  then have run: "fst (status R_merge ''feature/x'' w_status) =
      Inr \<lparr>st_isClean = False, st_conflicts = [], st_modified = [''EADME.md''], st_added = [],
        st_deleted = []\<rparr>"
    by (simp add: status_parse_lists files_of_kind_def status_kind_of_def)
  have spec: "files_of_kind Conflict ['' M README.md'', ''UU src/metadata.json''] = [''src/metadata.json'']"
    "files_of_kind Modified ['' M README.md'', ''UU src/metadata.json''] = [''README.md'']"
    by (simp_all add: files_of_kind_def status_kind_of_def)
  show ?thesis
    using run spec by simp
qed







section \<open>Properties of the lock manager\<close>

lemma baseDir_put_metadata: "baseDir (put_metadata w p m) = baseDir w"
  by (simp add: put_metadata_def split: option.splits)

lemma issued_put_metadata: "issued (put_metadata w p m) = issued w"
  by (simp add: put_metadata_def split: option.splits)

lemma dirs_put_metadata:
  "dirs (put_metadata w p m) q =
     (if q = p then map_option (\<lambda>d. d\<lparr>metadata_json := m\<rparr>) (dirs w p) else dirs w q)"
  by (simp add: put_metadata_def split: option.splits)

lemma read_put_metadata:
  "read_metadata (put_metadata w p m) q =
     (if q = p \<and> dirs w p \<noteq> None then m else read_metadata w q)"
  by (auto simp add: read_metadata_def dirs_put_metadata split: option.splits)

lemma put_metadata_Some:
  "dirs w p = Some d \<Longrightarrow> put_metadata w p m = w\<lparr>dirs := (dirs w)(p \<mapsto> d\<lparr>metadata_json := m\<rparr>)\<rparr>"
  by (simp add: put_metadata_def)

lemma feature_missing_dir: "getWorktreeDir ''/repo'' ''gone'' = ''/repo/.worktrees/gone''"
  by (simp add: getWorktreeDir_def normalize_feature_def is_alnum_dash_def)

text \<open>What a lock that goes through writes.\<close>

lemma lockWorktree_success:
  assumes "dirs w (getWorktreeDir (baseDir w) feature) = Some d"
    and "\<not> locked_by_other w (getWorktreeDir (baseDir w) feature) agentId"
  shows "lockWorktree now feature agentId w =
     (Inr (), w\<lparr>dirs := (dirs w)(getWorktreeDir (baseDir w) feature \<mapsto>
        d\<lparr>metadata_json := Doc \<lparr>lockedBy = Some agentId, timestamp = Some now, contextMsg = None,
          port = None, lastCheckpoint = None, checkpointBase = None\<rparr>\<rparr>)\<rparr>)"
  using assms
  by (auto simp add: lockWorktree_def locked_by_other_def Let_def put_metadata_Some
      empty_metadata_def split: option.splits)

lemma lockWorktree_conflict:
  assumes "dirs w (getWorktreeDir (baseDir w) feature) = Some d"
    and "locked_by_other w (getWorktreeDir (baseDir w) feature) agentId"
  shows "\<exists>l. lockWorktree now feature agentId w = (Inl (LockConflict l), w)
           \<and> getLockStatus w (getWorktreeDir (baseDir w) feature) = Some l"
  using assms
  by (simp add: lockWorktree_def locked_by_other_def Let_def split: option.splits)

lemma lockWorktree_Inr_iff:
  "(fst (lockWorktree now feature agentId w) = Inr ()) =
     (dirs w (getWorktreeDir (baseDir w) feature) \<noteq> None
      \<and> \<not> locked_by_other w (getWorktreeDir (baseDir w) feature) agentId)"
  by (auto simp add: lockWorktree_def locked_by_other_def Let_def split: option.splits)

text \<open>
  C3. For every feature whose worktree exists and is not locked by a different agent,
  \<open>lock\<close> succeeds and the metadata document it leaves holds \<open>lockedBy\<close> and \<open>timestamp\<close>
  only: port, context, lastCheckpoint and checkpointBase are absent from it whatever the
  document held before. Nothing else of the state changes.
\<close>

theorem lockWorktree_erases_other_fields:
  assumes "dirs w (getWorktreeDir (baseDir w) feature) = Some d"
    and "\<not> locked_by_other w (getWorktreeDir (baseDir w) feature) agentId"
  shows "lockWorktree now feature agentId w =
     (Inr (), w\<lparr>dirs := (dirs w)(getWorktreeDir (baseDir w) feature \<mapsto>
        d\<lparr>metadata_json := Doc \<lparr>lockedBy = Some agentId, timestamp = Some now, contextMsg = None,
          port = None, lastCheckpoint = None, checkpointBase = None\<rparr>\<rparr>)\<rparr>)
    \<and> read_metadata (snd (lockWorktree now feature agentId w)) (getWorktreeDir (baseDir w) feature) =
        Doc \<lparr>lockedBy = Some agentId, timestamp = Some now, contextMsg = None,
          port = None, lastCheckpoint = None, checkpointBase = None\<rparr>"
  using lockWorktree_success [OF assms, of now] by (simp add: read_metadata_def)

theorem lockWorktree_erases_other_fields_witness:
  "read_metadata w_full ''/repo/.worktrees/feature-x'' = Doc full_doc
   \<and> port full_doc = Some 8000 \<and> contextMsg full_doc = Some ''fix login''
   \<and> \<not> locked_by_other w_full ''/repo/.worktrees/feature-x'' ''agentA''
   \<and> fst (lockWorktree ''2026-02-02T00:00:00.000Z'' ''feature/x'' ''agentA'' w_full) = Inr ()
   \<and> read_metadata (snd (lockWorktree ''2026-02-02T00:00:00.000Z'' ''feature/x'' ''agentA'' w_full))
        ''/repo/.worktrees/feature-x'' =
      Doc \<lparr>lockedBy = Some ''agentA'', timestamp = Some ''2026-02-02T00:00:00.000Z'',
        contextMsg = None, port = None, lastCheckpoint = None, checkpointBase = None\<rparr>"
proof -
  have b: "baseDir w_full = ''/repo''"
    by (simp add: w_full_def)
  have d: "dirs w_full (getWorktreeDir (baseDir w_full) ''feature/x'') =
      Some \<lparr>metadata_json = Doc full_doc, env_local = Some (''PORT=8000'' @ [LF])\<rparr>"
    by (simp add: b feature_x_dir) (simp add: w_full_def)
  have r: "read_metadata w_full ''/repo/.worktrees/feature-x'' = Doc full_doc"
    by (simp add: read_metadata_def w_full_def)
  have l: "\<not> locked_by_other w_full (getWorktreeDir (baseDir w_full) ''feature/x'') ''agentA''"
    by (simp add: b feature_x_dir locked_by_other_def getLockStatus_def r) (simp add: full_doc_def)
  have l': "\<not> locked_by_other w_full ''/repo/.worktrees/feature-x'' ''agentA''"
    using l by (simp add: b feature_x_dir)
  have t: "fst (lockWorktree ''2026-02-02T00:00:00.000Z'' ''feature/x'' ''agentA'' w_full) = Inr ()
      \<and> read_metadata (snd (lockWorktree ''2026-02-02T00:00:00.000Z'' ''feature/x'' ''agentA'' w_full))
        ''/repo/.worktrees/feature-x'' =
      Doc \<lparr>lockedBy = Some ''agentA'', timestamp = Some ''2026-02-02T00:00:00.000Z'',
        contextMsg = None, port = None, lastCheckpoint = None, checkpointBase = None\<rparr>"
    using lockWorktree_erases_other_fields [OF d l, of "''2026-02-02T00:00:00.000Z''", THEN conjunct1]
      lockWorktree_erases_other_fields [OF d l, of "''2026-02-02T00:00:00.000Z''", THEN conjunct2]
    by (simp add: b feature_x_dir)
  have f: "port full_doc = Some 8000 \<and> contextMsg full_doc = Some ''fix login''"
    by (simp add: full_doc_def)
  show ?thesis
    using r l' t f by blast
qed

lemma lockWorktree_baseDir: "baseDir (snd (lockWorktree now feature agentId w)) = baseDir w"
  by (simp add: lockWorktree_def Let_def baseDir_put_metadata split: option.splits)

lemma lockWorktree_then_status:
  assumes "lockWorktree now feature agentId w = (Inr (), w1)"
  shows "getLockStatus w1 (getWorktreeDir (baseDir w) feature) = Some agentId
     \<and> dirs w1 (getWorktreeDir (baseDir w) feature) \<noteq> None \<and> baseDir w1 = baseDir w"
proof -
  have ok: "fst (lockWorktree now feature agentId w) = Inr ()"
    using assms by simp
  then obtain d where d: "dirs w (getWorktreeDir (baseDir w) feature) = Some d"
    and l: "\<not> locked_by_other w (getWorktreeDir (baseDir w) feature) agentId"
    by (auto simp add: lockWorktree_Inr_iff)
  show ?thesis
    using lockWorktree_success [OF d l, of now] assms
    by (auto simp add: getLockStatus_def read_metadata_def)
qed

text \<open>
  C7, as stated, fails for the empty agent identifier: a lock by the empty agent goes
  through, the lock status it leaves is not truthy, and the lock of another agent then goes
  through as well and takes the worktree over.
\<close>

theorem lockWorktree_empty_agent_counterexample:
  "[] \<noteq> ''agentB''
   \<and> fst (lockWorktree ''t1'' ''feature/x'' [] w_fresh) = Inr ()
   \<and> fst (lockWorktree ''t2'' ''feature/x'' ''agentB''
        (snd (lockWorktree ''t1'' ''feature/x'' [] w_fresh))) = Inr ()
   \<and> getLockStatus (snd (lockWorktree ''t2'' ''feature/x'' ''agentB''
        (snd (lockWorktree ''t1'' ''feature/x'' [] w_fresh)))) ''/repo/.worktrees/feature-x'' =
      Some ''agentB''"
proof -
  have b: "baseDir w_fresh = ''/repo''"
    by (simp add: w_fresh_def)
  have d: "dirs w_fresh (getWorktreeDir (baseDir w_fresh) ''feature/x'') =
      Some \<lparr>metadata_json = NoFile, env_local = None\<rparr>"
    by (simp add: b feature_x_dir) (simp add: w_fresh_def)
  have l: "\<not> locked_by_other w_fresh (getWorktreeDir (baseDir w_fresh) ''feature/x'') []"
    by (simp add: b feature_x_dir locked_by_other_def getLockStatus_def read_metadata_def)
      (simp add: w_fresh_def)
  define w1 where "w1 = snd (lockWorktree ''t1'' ''feature/x'' [] w_fresh)"
  have first: "lockWorktree ''t1'' ''feature/x'' [] w_fresh = (Inr (), w1)"
    using lockWorktree_success [OF d l, of "''t1''"] by (simp add: w1_def)
  have s1: "getLockStatus w1 ''/repo/.worktrees/feature-x'' = Some []"
    and d1: "dirs w1 ''/repo/.worktrees/feature-x'' \<noteq> None" and b1: "baseDir w1 = ''/repo''"
    using lockWorktree_then_status [OF first] by (simp_all add: b feature_x_dir)
  obtain d' where d': "dirs w1 (getWorktreeDir (baseDir w1) ''feature/x'') = Some d'"
    using d1 by (auto simp add: b1 feature_x_dir)
  have l': "\<not> locked_by_other w1 (getWorktreeDir (baseDir w1) ''feature/x'') ''agentB''"
    by (simp add: b1 feature_x_dir locked_by_other_def s1)
  define w2 where "w2 = snd (lockWorktree ''t2'' ''feature/x'' ''agentB'' w1)"
  have second: "lockWorktree ''t2'' ''feature/x'' ''agentB'' w1 = (Inr (), w2)"
    using lockWorktree_success [OF d' l', of "''t2''"] by (simp add: w2_def)
  have s2: "getLockStatus w2 ''/repo/.worktrees/feature-x'' = Some ''agentB''"
    using lockWorktree_then_status [OF second] by (simp add: b1 feature_x_dir)
  show ?thesis
    using first second s2 by (simp add: w1_def [symmetric] w2_def [symmetric])
qed

text \<open>
  C7, amended. For every feature and agents A and B with A not empty and A \<noteq> B:
  \<open>lock(feature, A)\<close> fails with NotFound, leaving the state as it is, when the worktree
  does not exist; after a successful \<open>lock(feature, A)\<close>, \<open>lock(feature, B)\<close> fails with
  LockConflict, the state is not changed by the failed attempt and the worktree is locked by
  A; and \<open>lock(feature, A)\<close> again succeeds and leaves the worktree locked by A.
\<close>

theorem lockWorktree_exclusive:
  assumes "A \<noteq> []" and "A \<noteq> B"
  shows "(dirs w (getWorktreeDir (baseDir w) feature) = None \<longrightarrow>
           lockWorktree now feature A w = (Inl (NotFound feature), w))
       \<and> (lockWorktree now feature A w = (Inr (), w1) \<longrightarrow>
           lockWorktree now' feature B w1 = (Inl (LockConflict A), w1)
           \<and> getLockStatus w1 (getWorktreeDir (baseDir w) feature) = Some A
           \<and> fst (lockWorktree now'' feature A w1) = Inr ()
           \<and> getLockStatus (snd (lockWorktree now'' feature A w1))
                (getWorktreeDir (baseDir w) feature) = Some A)"
proof (intro conjI impI)
  assume "dirs w (getWorktreeDir (baseDir w) feature) = None"
  then show "lockWorktree now feature A w = (Inl (NotFound feature), w)"
    by (simp add: lockWorktree_def Let_def)
next
  assume first: "lockWorktree now feature A w = (Inr (), w1)"
  have s: "getLockStatus w1 (getWorktreeDir (baseDir w) feature) = Some A"
    and d: "dirs w1 (getWorktreeDir (baseDir w) feature) \<noteq> None" and b: "baseDir w1 = baseDir w"
    using lockWorktree_then_status [OF first] by simp_all
  show "getLockStatus w1 (getWorktreeDir (baseDir w) feature) = Some A"
    by (rule s)
  obtain d1 where d1: "dirs w1 (getWorktreeDir (baseDir w1) feature) = Some d1"
    using d b by auto
  have other: "locked_by_other w1 (getWorktreeDir (baseDir w1) feature) B"
    using assms by (simp add: locked_by_other_def b s)
  show "lockWorktree now' feature B w1 = (Inl (LockConflict A), w1)"
    using lockWorktree_conflict [OF d1 other, of now'] by (simp add: b s)
  have same: "\<not> locked_by_other w1 (getWorktreeDir (baseDir w1) feature) A"
    by (simp add: locked_by_other_def b s)
  have again: "lockWorktree now'' feature A w1 = (Inr (), snd (lockWorktree now'' feature A w1))"
    using lockWorktree_success [OF d1 same, of now''] by simp
  show "fst (lockWorktree now'' feature A w1) = Inr ()"
    using again by (metis fst_conv)
  show "getLockStatus (snd (lockWorktree now'' feature A w1))
      (getWorktreeDir (baseDir w) feature) = Some A"
    using lockWorktree_then_status [OF again] by (simp add: b)
qed

theorem lockWorktree_exclusive_witness:
  "''agentA'' \<noteq> [] \<and> ''agentA'' \<noteq> ''agentB''
   \<and> dirs w_fresh ''/repo/.worktrees/gone'' = None
   \<and> lockWorktree ''t1'' ''gone'' ''agentA'' w_fresh = (Inl (NotFound ''gone''), w_fresh)
   \<and> fst (lockWorktree ''t1'' ''feature/x'' ''agentA'' w_fresh) = Inr ()
   \<and> lockWorktree ''t2'' ''feature/x'' ''agentB''
        (snd (lockWorktree ''t1'' ''feature/x'' ''agentA'' w_fresh)) =
      (Inl (LockConflict ''agentA''), snd (lockWorktree ''t1'' ''feature/x'' ''agentA'' w_fresh))
   \<and> getLockStatus (snd (lockWorktree ''t1'' ''feature/x'' ''agentA'' w_fresh))
        ''/repo/.worktrees/feature-x'' = Some ''agentA''
   \<and> fst (lockWorktree ''t3'' ''feature/x'' ''agentA''
        (snd (lockWorktree ''t1'' ''feature/x'' ''agentA'' w_fresh))) = Inr ()"
proof -
  have ne: "''agentA'' \<noteq> []" and ab: "''agentA'' \<noteq> ''agentB''"
    by simp_all
  have b: "baseDir w_fresh = ''/repo''"
    by (simp add: w_fresh_def)
  have gone: "dirs w_fresh ''/repo/.worktrees/gone'' = None"
    by (simp add: w_fresh_def)
  have d: "dirs w_fresh (getWorktreeDir (baseDir w_fresh) ''feature/x'') =
      Some \<lparr>metadata_json = NoFile, env_local = None\<rparr>"
    by (simp add: b feature_x_dir) (simp add: w_fresh_def)
  have l: "\<not> locked_by_other w_fresh (getWorktreeDir (baseDir w_fresh) ''feature/x'') ''agentA''"
    by (simp add: b feature_x_dir locked_by_other_def getLockStatus_def read_metadata_def)
      (simp add: w_fresh_def)
  define w1 where "w1 = snd (lockWorktree ''t1'' ''feature/x'' ''agentA'' w_fresh)"
  have first: "lockWorktree ''t1'' ''feature/x'' ''agentA'' w_fresh = (Inr (), w1)"
    using lockWorktree_success [OF d l, of "''t1''"] by (simp add: w1_def)
  have nf: "lockWorktree ''t1'' ''gone'' ''agentA'' w_fresh = (Inl (NotFound ''gone''), w_fresh)"
    using lockWorktree_exclusive [OF ne ab, of w_fresh "''gone''" "''t1''" w1 "''t2''" "''t3''"] gone
    by (simp add: b feature_missing_dir)
  have rest: "lockWorktree ''t2'' ''feature/x'' ''agentB'' w1 = (Inl (LockConflict ''agentA''), w1)
      \<and> getLockStatus w1 ''/repo/.worktrees/feature-x'' = Some ''agentA''
      \<and> fst (lockWorktree ''t3'' ''feature/x'' ''agentA'' w1) = Inr ()"
    using lockWorktree_exclusive [OF ne ab, of w_fresh "''feature/x''" "''t1''" w1 "''t2''" "''t3''"]
      first
    by (simp add: b feature_x_dir)
  have f1: "fst (lockWorktree ''t1'' ''feature/x'' ''agentA'' w_fresh) = Inr ()"
    using first by simp
  show ?thesis
    using ne ab gone nf rest f1 unfolding w1_def by blast
qed

text \<open>What a handoff does to the three kinds of metadata file.\<close>

lemma handoff_readable:
  assumes "dirs w (getWorktreeDir (baseDir w) feature) = Some d"
    and "metadata_json d \<noteq> Corrupt"
  shows "handoff now feature toAgentId w =
     (Inr (), put_metadata w (getWorktreeDir (baseDir w) feature)
        (Doc ((doc_or_empty (metadata_json d))\<lparr>lockedBy := Some toAgentId, timestamp := Some now\<rparr>)))"
  using assms
  by (cases "metadata_json d")
    (simp_all add: handoff_def Let_def read_metadata_def doc_or_empty_def)

lemma handoff_never_LockConflict: "fst (handoff now feature toAgentId w) \<noteq> Inl (LockConflict a)"
  by (simp add: handoff_def Let_def split: metafile.splits)

text \<open>
  C8, as stated, fails when the metadata file of the worktree does not parse: the handoff
  reads the document before it writes, and the parse error passes through.
\<close>

theorem handoff_corrupt_counterexample:
  "dirs w_corrupt (getWorktreeDir (baseDir w_corrupt) ''feature/x'') \<noteq> None
   \<and> handoff ''t1'' ''feature/x'' ''agentB'' w_corrupt = (Inl JsonSyntaxError, w_corrupt)"
proof -
  have b: "baseDir w_corrupt = ''/repo''"
    by (simp add: w_corrupt_def)
  have d: "dirs w_corrupt ''/repo/.worktrees/feature-x'' =
      Some \<lparr>metadata_json = Corrupt, env_local = None\<rparr>"
    by (simp add: w_corrupt_def)
  show ?thesis
    by (simp add: handoff_def Let_def b feature_x_dir d read_metadata_def)
qed

text \<open>
  C8, amended. For every feature whose worktree exists and whose metadata file is absent
  or parses, and every agent toAgentId, \<open>handoff(feature, toAgentId)\<close> succeeds, sets
  \<open>lockedBy\<close> to toAgentId and \<open>timestamp\<close> to the time of the call and keeps the other
  fields of the document, whoever holds the lock. In every state, \<open>handoff\<close> never fails
  with LockConflict.
\<close>

theorem handoff_overwrites_lock:
  assumes "dirs w (getWorktreeDir (baseDir w) feature) = Some d"
    and "metadata_json d \<noteq> Corrupt"
  shows "fst (handoff now feature toAgentId w) = Inr ()
     \<and> read_metadata (snd (handoff now feature toAgentId w)) (getWorktreeDir (baseDir w) feature) =
         Doc ((doc_or_empty (metadata_json d))\<lparr>lockedBy := Some toAgentId, timestamp := Some now\<rparr>)
     \<and> getLockStatus (snd (handoff now feature toAgentId w)) (getWorktreeDir (baseDir w) feature) =
         Some toAgentId
     \<and> (\<forall>w' a. fst (handoff now feature toAgentId w') \<noteq> Inl (LockConflict a))"
  using assms handoff_readable [OF assms, of now toAgentId]
  by (simp add: read_put_metadata getLockStatus_def handoff_never_LockConflict)

theorem handoff_overwrites_lock_witness:
  "getLockStatus w_full ''/repo/.worktrees/feature-x'' = Some ''agentA''
   \<and> fst (handoff ''2026-02-02T00:00:00.000Z'' ''feature/x'' ''agentB'' w_full) = Inr ()
   \<and> read_metadata (snd (handoff ''2026-02-02T00:00:00.000Z'' ''feature/x'' ''agentB'' w_full))
        ''/repo/.worktrees/feature-x'' =
      Doc \<lparr>lockedBy = Some ''agentB'', timestamp = Some ''2026-02-02T00:00:00.000Z'',
        contextMsg = Some ''fix login'', port = Some 8000, lastCheckpoint = Some ''b2b2b2b'',
        checkpointBase = Some ''a1a1a1a''\<rparr>"
proof -
  have b: "baseDir w_full = ''/repo''"
    by (simp add: w_full_def)
  have d: "dirs w_full (getWorktreeDir (baseDir w_full) ''feature/x'') =
      Some \<lparr>metadata_json = Doc full_doc, env_local = Some (''PORT=8000'' @ [LF])\<rparr>"
    by (simp add: b feature_x_dir) (simp add: w_full_def)
  have c: "metadata_json \<lparr>metadata_json = Doc full_doc, env_local = Some (''PORT=8000'' @ [LF])\<rparr>
      \<noteq> Corrupt"
    by simp
  have s: "getLockStatus w_full ''/repo/.worktrees/feature-x'' = Some ''agentA''"
    by (simp add: getLockStatus_def read_metadata_def w_full_def full_doc_def)
  have t1: "fst (handoff ''2026-02-02T00:00:00.000Z'' ''feature/x'' ''agentB'' w_full) = Inr ()"
    using handoff_overwrites_lock [OF d c, of "''2026-02-02T00:00:00.000Z''" "''agentB''"]
    by simp
  have t2: "read_metadata (snd (handoff ''2026-02-02T00:00:00.000Z'' ''feature/x'' ''agentB'' w_full))
        ''/repo/.worktrees/feature-x'' =
      Doc \<lparr>lockedBy = Some ''agentB'', timestamp = Some ''2026-02-02T00:00:00.000Z'',
        contextMsg = Some ''fix login'', port = Some 8000, lastCheckpoint = Some ''b2b2b2b'',
        checkpointBase = Some ''a1a1a1a''\<rparr>"
    using handoff_overwrites_lock [OF d c, of "''2026-02-02T00:00:00.000Z''" "''agentB''"]
    by (simp add: b feature_x_dir doc_or_empty_def full_doc_def)
  show ?thesis
    using s t1 t2 by blast
qed

text \<open>An unlock by the owner, or a forced one, removes the metadata file.\<close>

lemma unlockWorktree_removes_file:
  assumes "dirs w (getWorktreeDir (baseDir w) feature) = Some d"
    and "getLockStatus w (getWorktreeDir (baseDir w) feature) = Some l" and "l \<noteq> []"
    and "l = agentId \<or> force"
  shows "unlockWorktree feature agentId force w =
     (Inr (), put_metadata w (getWorktreeDir (baseDir w) feature) NoFile)"
  using assms
  by (auto simp add: unlockWorktree_def Let_def getLockStatus_def read_metadata_def
      split: metafile.splits)

text \<open>
  C2. The claim is that an unlock by the owner clears the lock fields only. The code
  deletes the metadata file: on a worktree locked by \<open>agentA\<close> whose document also holds a
  port, a context and a checkpoint, \<open>unlock(feature, agentA, false)\<close> succeeds and leaves no
  metadata file, so port, context, lastCheckpoint and checkpointBase are gone with the lock.
\<close>

theorem unlockWorktree_deletes_document:
  "read_metadata w_full ''/repo/.worktrees/feature-x'' = Doc full_doc
   \<and> lockedBy full_doc = Some ''agentA'' \<and> port full_doc = Some 8000
   \<and> contextMsg full_doc = Some ''fix login'' \<and> checkpointBase full_doc = Some ''a1a1a1a''
   \<and> fst (unlockWorktree ''feature/x'' ''agentA'' False w_full) = Inr ()
   \<and> read_metadata (snd (unlockWorktree ''feature/x'' ''agentA'' False w_full))
        ''/repo/.worktrees/feature-x'' = NoFile"
proof -
  have b: "baseDir w_full = ''/repo''"
    by (simp add: w_full_def)
  have d: "dirs w_full (getWorktreeDir (baseDir w_full) ''feature/x'') =
      Some \<lparr>metadata_json = Doc full_doc, env_local = Some (''PORT=8000'' @ [LF])\<rparr>"
    by (simp add: b feature_x_dir) (simp add: w_full_def)
  have r: "read_metadata w_full ''/repo/.worktrees/feature-x'' = Doc full_doc"
    by (simp add: read_metadata_def w_full_def)
  have s: "getLockStatus w_full (getWorktreeDir (baseDir w_full) ''feature/x'') = Some ''agentA''"
    by (simp add: b feature_x_dir getLockStatus_def r) (simp add: full_doc_def)
  have u: "unlockWorktree ''feature/x'' ''agentA'' False w_full =
      (Inr (), put_metadata w_full ''/repo/.worktrees/feature-x'' NoFile)"
    using unlockWorktree_removes_file [OF d s, of "''agentA''" False] by (simp add: b feature_x_dir)
  have gone: "read_metadata (put_metadata w_full ''/repo/.worktrees/feature-x'' NoFile)
      ''/repo/.worktrees/feature-x'' = NoFile"
    by (simp add: read_put_metadata) (simp add: w_full_def)
  have f: "lockedBy full_doc = Some ''agentA'' \<and> port full_doc = Some 8000
      \<and> contextMsg full_doc = Some ''fix login'' \<and> checkpointBase full_doc = Some ''a1a1a1a''"
    by (simp add: full_doc_def)
  show ?thesis
    using r f gone by (simp add: u)
qed

section \<open>Properties of the checkpoint manager\<close>

text \<open>A restore whose reset command succeeds: the value returned is read after the delete.\<close>

lemma checkpointRestore_success:
  assumes "dirs w (getWorktreeDir (baseDir w) feature) = Some d"
    and "metadata_json d = Doc data" and "checkpointBase data = Some c" and "c \<noteq> []"
    and "R (issued w) (''git reset --hard '' @ c) (getWorktreeDir (baseDir w) feature) = Inr out"
  shows "checkpointRestore R feature w =
     (Inr None,
      put_metadata (w\<lparr>issued := issued w @ [(''git reset --hard '' @ c, getWorktreeDir (baseDir w) feature)]\<rparr>)
        (getWorktreeDir (baseDir w) feature)
        (Doc (data\<lparr>lastCheckpoint := None, checkpointBase := None\<rparr>)))"
  using assms
  by (simp add: checkpointRestore_def Let_def read_metadata_def exec_def)

text \<open>
  C1. The claim is that a restore resets the worktree to the recorded checkpointBase c,
  clears both checkpoint fields and returns c. The code does the first two and returns
  nothing: with \<open>checkpointBase = a1a1a1a\<close> it runs \<open>git reset --hard a1a1a1a\<close> in the
  worktree, writes the document without lastCheckpoint and checkpointBase, and the
  \<open>restoredTo\<close> it returns is undefined.
\<close>

theorem checkpointRestore_returns_undefined:
  "read_metadata w_full ''/repo/.worktrees/feature-x'' = Doc full_doc
   \<and> checkpointBase full_doc = Some ''a1a1a1a''
   \<and> fst (checkpointRestore R_ok ''feature/x'' w_full) = Inr None
   \<and> issued (snd (checkpointRestore R_ok ''feature/x'' w_full)) =
       [(''git reset --hard a1a1a1a'', ''/repo/.worktrees/feature-x'')]
   \<and> read_metadata (snd (checkpointRestore R_ok ''feature/x'' w_full))
        ''/repo/.worktrees/feature-x'' =
      Doc \<lparr>lockedBy = Some ''agentA'', timestamp = Some ''2026-01-01T00:00:00.000Z'',
        contextMsg = Some ''fix login'', port = Some 8000, lastCheckpoint = None,
        checkpointBase = None\<rparr>"
proof -
  have b: "baseDir w_full = ''/repo''"
    by (simp add: w_full_def)
  have i: "issued w_full = []"
    by (simp add: w_full_def)
  have d: "dirs w_full (getWorktreeDir (baseDir w_full) ''feature/x'') =
      Some \<lparr>metadata_json = Doc full_doc, env_local = Some (''PORT=8000'' @ [LF])\<rparr>"
    by (simp add: b feature_x_dir) (simp add: w_full_def)
  have m: "metadata_json \<lparr>metadata_json = Doc full_doc, env_local = Some (''PORT=8000'' @ [LF])\<rparr>
      = Doc full_doc"
    by simp
  have c: "checkpointBase full_doc = Some ''a1a1a1a''"
    by (simp add: full_doc_def)
  have r: "read_metadata w_full ''/repo/.worktrees/feature-x'' = Doc full_doc"
    by (simp add: read_metadata_def w_full_def)
  have ne: "''a1a1a1a'' \<noteq> []"
    by simp
  have ok: "R_ok (issued w_full) (''git reset --hard '' @ ''a1a1a1a'')
      (getWorktreeDir (baseDir w_full) ''feature/x'') = Inr []"
    by (simp add: R_ok_def)
  have run: "checkpointRestore R_ok ''feature/x'' w_full =
      (Inr None,
       put_metadata (w_full\<lparr>issued := [(''git reset --hard a1a1a1a'', ''/repo/.worktrees/feature-x'')]\<rparr>)
         ''/repo/.worktrees/feature-x''
         (Doc (full_doc\<lparr>lastCheckpoint := None, checkpointBase := None\<rparr>)))"
    using checkpointRestore_success [where R = R_ok and w = w_full and feature = "''feature/x''", OF d m c ne ok]
    by (simp add: b i feature_x_dir)
  have d': "dirs (w_full\<lparr>issued := [(''git reset --hard a1a1a1a'', ''/repo/.worktrees/feature-x'')]\<rparr>)
      ''/repo/.worktrees/feature-x'' \<noteq> None"
    by (simp add: w_full_def)
  have after: "read_metadata (snd (checkpointRestore R_ok ''feature/x'' w_full))
        ''/repo/.worktrees/feature-x'' = Doc (full_doc\<lparr>lastCheckpoint := None, checkpointBase := None\<rparr>)"
    using d' by (simp add: run read_put_metadata)
  have log: "issued (snd (checkpointRestore R_ok ''feature/x'' w_full)) =
       [(''git reset --hard a1a1a1a'', ''/repo/.worktrees/feature-x'')]"
    by (simp add: run issued_put_metadata)
  have res: "fst (checkpointRestore R_ok ''feature/x'' w_full) = Inr None"
    by (simp add: run)
  have doc: "full_doc\<lparr>lastCheckpoint := None, checkpointBase := None\<rparr> =
      \<lparr>lockedBy = Some ''agentA'', timestamp = Some ''2026-01-01T00:00:00.000Z'',
        contextMsg = Some ''fix login'', port = Some 8000, lastCheckpoint = None,
        checkpointBase = None\<rparr>"
    by (simp add: full_doc_def)
  show ?thesis
    using r c res log after by (simp add: doc)
qed

section \<open>Properties of lines and of the names read in them\<close>

lemma trim_id: "s \<noteq> [] \<Longrightarrow> \<not> is_space (hd s) \<Longrightarrow> \<not> is_space (last s) \<Longrightarrow> trim s = s"
proof -
  assume s: "s \<noteq> []" and h: "\<not> is_space (hd s)" and l: "\<not> is_space (last s)"
  have a: "dropWhile is_space s = s"
    using s h by (simp add: dropWhile_eq_self_iff)
  have "hd (rev s) = last s"
    using s by (simp add: hd_rev)
  then have b: "dropWhile is_space (rev s) = rev s"
    using s l by (simp add: dropWhile_eq_self_iff)
  show "trim s = s"
    by (simp add: trim_def a b)
qed







lemma snoc_line_Cons:
  "ls \<noteq> [] \<Longrightarrow> butlast (x # ls) @ [last (x # ls) @ [c]] = x # (butlast ls @ [last ls @ [c]])"
  by simp























section \<open>Properties of the garbage collection\<close>

lemma exec_Inl:
  "R (issued w) cmd cwd = Inl msg \<Longrightarrow> exec R cmd cwd w = (Inl msg, w\<lparr>issued := issued w @ [(cmd, cwd)]\<rparr>)"
  by (simp add: exec_def)

lemma exec_Inr:
  "R (issued w) cmd cwd = Inr out \<Longrightarrow> exec R cmd cwd w = (Inr (trim out), w\<lparr>issued := issued w @ [(cmd, cwd)]\<rparr>)"
  by (simp add: exec_def)

lemma exec_snd: "snd (exec R cmd cwd w) = w\<lparr>issued := issued w @ [(cmd, cwd)]\<rparr>"
  by (simp add: exec_def)

lemma exec_base_snd: "snd (exec R cmd (baseDir w) w) = after_command cmd w"
  by (simp add: exec_def after_command_def)

lemma exec_base_ok: "(\<exists>out. fst (exec R cmd (baseDir w) w) = Inr out) = command_ok R cmd w"
  by (simp add: exec_def command_ok_def split: sum.splits)

lemma baseDir_after_command: "baseDir (after_command cmd w) = baseDir w"
  by (simp add: after_command_def)

lemma dirs_after_command: "dirs (after_command cmd w) = dirs w"
  by (simp add: after_command_def)

lemma getLockStatus_dirs: "dirs w' = dirs w \<Longrightarrow> getLockStatus w' p = getLockStatus w p"
  by (simp add: getLockStatus_def read_metadata_def)

lemma truthy_lock: "truthy (getLockStatus w p) = gc_locked w p"
  by (simp add: truthy_def getLockStatus_def gc_locked_def split: metafile.splits option.splits)







lemma gc_try_dirs: "dirs (snd (gc_try R base wt w)) = dirs w \<and> baseDir (snd (gc_try R base wt w)) = baseDir w"
  by (simp add: gc_try_def gc_isMerged_def exec_def split: sum.splits prod.splits)

lemma isClean_frame: "dirs (snd (isClean R p w)) = dirs w \<and> baseDir (snd (isClean R p w)) = baseDir w"
  by (simp add: isClean_def exec_def split: sum.splits)

lemma push_current_frame:
  "dirs (snd (push_current R cur wts w)) = dirs w \<and> baseDir (snd (push_current R cur wts w)) = baseDir w"
proof (cases "cur_path cur")
  case None
  then show ?thesis by (simp add: push_current_def)
next
  case (Some p)
  show ?thesis
  proof (cases "cur_branch cur")
    case None
    then show ?thesis using Some by (simp add: push_current_def)
  next
    case (Some b)
    obtain c w' where i: "isClean R p w = (c, w')"
      by (cases "isClean R p w")
    have "dirs w' = dirs w \<and> baseDir w' = baseDir w"
      using isClean_frame [of R p w] i by simp
    then show ?thesis
      using \<open>cur_path cur = Some p\<close> Some i by (simp add: push_current_def)
  qed
qed

lemma list_loop_frame:
  "dirs (snd (list_loop R lines cur wts w)) = dirs w
   \<and> baseDir (snd (list_loop R lines cur wts w)) = baseDir w"
proof (induction lines arbitrary: cur wts w)
  case Nil
  show ?case by (simp add: push_current_frame)
next
  case (Cons line lines)
  show ?case
  proof (cases "startsWith ''worktree '' line")
    case True
    obtain wts' w' where p: "push_current R cur wts w = (wts', w')"
      by (cases "push_current R cur wts w")
    have f: "dirs w' = dirs w \<and> baseDir w' = baseDir w"
      using push_current_frame [of R cur wts w] p by simp
    show ?thesis
      using True p f Cons.IH by simp
  next
    case False
    then show ?thesis
      using Cons.IH by simp
  qed
qed

lemma listWorktrees_frame:
  "dirs (snd (listWorktrees R w)) = dirs w \<and> baseDir (snd (listWorktrees R w)) = baseDir w"
proof (cases "R (issued w) ''git worktree list --porcelain'' (baseDir w)")
  case (Inl msg)
  then show ?thesis
    by (simp add: listWorktrees_def exec_def)
next
  case (Inr out)
  obtain wts w'' where l: "list_loop R (split_lines (trim out)) \<lparr>cur_path = None, cur_branch = None\<rparr> []
      (w\<lparr>issued := issued w @ [(''git worktree list --porcelain'', baseDir w)]\<rparr>) = (wts, w'')"
    by (cases "list_loop R (split_lines (trim out)) \<lparr>cur_path = None, cur_branch = None\<rparr> []
      (w\<lparr>issued := issued w @ [(''git worktree list --porcelain'', baseDir w)]\<rparr>)")
  have "dirs w'' = dirs w \<and> baseDir w'' = baseDir w"
    using list_loop_frame [of R "split_lines (trim out)" "\<lparr>cur_path = None, cur_branch = None\<rparr>" "[]"
        "w\<lparr>issued := issued w @ [(''git worktree list --porcelain'', baseDir w)]\<rparr>"] l
    by simp
  then show ?thesis
    using Inr l by (simp add: listWorktrees_def exec_def)
qed

lemma gc_loop_pushed:
  "fst (gc_loop R base worktrees removed w) =
     removed @ map (wt_branch \<circ> fst) (filter (gc_pushed R base) (gc_visits R base worktrees w))"
proof (induction worktrees arbitrary: removed w)
  case Nil
  show ?case by simp
next
  case (Cons wt worktrees)
  obtain r w' where t: "gc_try R base wt w = (r, w')"
    by (cases "gc_try R base wt w")
  have p: "gc_pushed R base (wt, w) = (r = Inr True)"
    using t by (simp add: gc_pushed_def)
  show ?case
  proof (cases r)
    case (Inl msg)
    then show ?thesis
      using t p Cons.IH [of removed w'] by simp
  next
    case (Inr pushed)
    then show ?thesis
      using t p Cons.IH [of removed w'] Cons.IH [of "removed @ [wt_branch wt]" w']
      by (cases pushed) simp_all
  qed
qed

lemma gc_visits_worktrees: "map fst (gc_visits R base worktrees w) = worktrees"
  by (induction worktrees arbitrary: w) simp_all

lemma gc_visits_dirs:
  "v \<in> set (gc_visits R base worktrees w) \<Longrightarrow> dirs (snd v) = dirs w"
proof (induction worktrees arbitrary: w)
  case Nil
  then show ?case by simp
next
  case (Cons wt worktrees)
  then show ?case
    using gc_try_dirs [of R base wt w] by auto
qed


lemma getLockStatus_issued: "getLockStatus (w\<lparr>issued := x\<rparr>) p = getLockStatus w p"
  by (simp add: getLockStatus_def read_metadata_def)

lemma gc_visits_baseDir:
  "v \<in> set (gc_visits R base worktrees w) \<Longrightarrow> baseDir (snd v) = baseDir w"
proof (induction worktrees arbitrary: w)
  case Nil
  then show ?case by simp
next
  case (Cons wt worktrees)
  then show ?case
    using gc_try_dirs [of R base wt w] by auto
qed

lemma filter_visits_stateless:
  assumes "\<And>v. v \<in> set vs \<Longrightarrow> Q v = P (fst v)"
  shows "map (f \<circ> fst) (filter Q vs) = map f (filter P (map fst vs))"
  using assms by (induction vs) (simp_all add: comp_def)




text \<open>
  A runner whose answers do not depend on the commands run before: what \<open>gc\<close> does with a
  worktree is then the same at every moment of the run.
\<close>

lemma gc_try_const:
  assumes "baseDir w' = baseDir w" and "dirs w' = dirs w"
  shows "fst (gc_try (\<lambda>h. R0) base wt w') = fst (gc_try (\<lambda>h. R0) base wt w)"
  by (simp add: gc_try_def gc_isMerged_def exec_def assms getLockStatus_def read_metadata_def
      split: sum.splits)

lemma gc_pushed_stateless:
  assumes "\<forall>h cmd cwd. R h cmd cwd = R [] cmd cwd"
    and "baseDir w' = baseDir w" and "dirs w' = dirs w"
  shows "gc_pushed R base (wt, w') = gc_pushed R base (wt, w)"
proof -
  define R0 where "R0 = R []"
  have "\<And>h. R h = R0"
    using assms(1) by (intro ext) (simp add: R0_def)
  then have r: "(\<lambda>h. R0) = R"
    by (intro ext) simp
  show ?thesis
    using gc_try_const [OF assms(2) assms(3), of R0 base wt] by (simp add: gc_pushed_def r)
qed



lemma gc_run:
  assumes "listWorktrees R w = (Inr worktrees, w1)"
  shows "\<exists>w'. gc R base w =
     (Inr (map (wt_branch \<circ> fst) (filter (gc_pushed R base)
        (gc_visits R base worktrees (after_command (''git fetch origin '' @ base) w1)))), w')"
proof -
  define w2 where "w2 = after_command (''git fetch origin '' @ base) w1"
  have "snd (exec R (''git fetch origin '' @ base) (baseDir w1) w1) = w2"
    by (simp add: w2_def exec_base_snd)
  then obtain r1 where fetch: "exec R (''git fetch origin '' @ base) (baseDir w1) w1 = (r1, w2)"
    by (cases "exec R (''git fetch origin '' @ base) (baseDir w1) w1") simp
  obtain rm w3 where loop: "gc_loop R base worktrees [] w2 = (rm, w3)"
    by (cases "gc_loop R base worktrees [] w2")
  have rm: "rm = map (wt_branch \<circ> fst) (filter (gc_pushed R base) (gc_visits R base worktrees w2))"
    using gc_loop_pushed [of R base worktrees "[]" w2] loop by simp
  have "gc R base w = (Inr rm, w3)"
    by (simp only: gc_def assms fetch loop prod.case sum.case)
  then show ?thesis
    by (simp only: rm w2_def) blast
qed

lemma gc_visits_frame:
  assumes "listWorktrees R w = (Inr worktrees, w1)"
    and "v \<in> set (gc_visits R base worktrees (after_command (''git fetch origin '' @ base) w1))"
  shows "dirs (snd v) = dirs w" and "baseDir (snd v) = baseDir w"
proof -
  have "dirs w1 = dirs w" and "baseDir w1 = baseDir w"
    using listWorktrees_frame [of R w] assms(1) by simp_all
  then have "dirs (after_command (''git fetch origin '' @ base) w1) = dirs w"
    and "baseDir (after_command (''git fetch origin '' @ base) w1) = baseDir w"
    by (simp_all add: dirs_after_command baseDir_after_command)
  then show "dirs (snd v) = dirs w" and "baseDir (snd v) = baseDir w"
    using gc_visits_dirs [OF assms(2)] gc_visits_baseDir [OF assms(2)] by simp_all
qed

lemma gc_run_stateless:
  assumes "listWorktrees R w = (Inr worktrees, w1)"
    and "\<forall>h cmd cwd. R h cmd cwd = R [] cmd cwd"
  shows "fst (gc R base w) =
     Inr (map wt_branch (filter (\<lambda>wt. gc_pushed R base (wt, w)) worktrees))"
proof -
  define vs where "vs = gc_visits R base worktrees (after_command (''git fetch origin '' @ base) w1)"
  have same: "\<And>v. v \<in> set vs \<Longrightarrow> gc_pushed R base v = gc_pushed R base (fst v, w)"
  proof -
    fix v
    assume v: "v \<in> set vs"
    have "gc_pushed R base (fst v, snd v) = gc_pushed R base (fst v, w)"
      using assms(2) gc_visits_frame(2) [OF assms(1) v [unfolded vs_def]]
        gc_visits_frame(1) [OF assms(1) v [unfolded vs_def]]
      by (rule gc_pushed_stateless)
    then show "gc_pushed R base v = gc_pushed R base (fst v, w)"
      by simp
  qed
  have "map (wt_branch \<circ> fst) (filter (gc_pushed R base) vs) =
      map wt_branch (filter (\<lambda>wt. gc_pushed R base (wt, w)) (map fst vs))"
    by (rule filter_visits_stateless) (rule same)
  then have "map (wt_branch \<circ> fst) (filter (gc_pushed R base) vs) =
      map wt_branch (filter (\<lambda>wt. gc_pushed R base (wt, w)) worktrees)"
    by (simp add: vs_def gc_visits_worktrees)
  then show ?thesis
    using gc_run [OF assms(1), of base] by (auto simp add: vs_def)
qed

text \<open>The example repository.\<close>

lemma gc_listing_lines:
  "split_lines (trim gc_listing) =
     [''worktree /repo'', ''HEAD 1a2b'', ''branch refs/heads/main'', [],
      ''worktree /repo/.worktrees/held'', ''HEAD 1a2b'', ''branch refs/heads/held'', [],
      ''worktree /repo/.worktrees/dirty'', ''HEAD 1a2b'', ''branch refs/heads/dirty'', [],
      ''worktree /repo/.worktrees/stuck'', ''HEAD 1a2b'', ''branch refs/heads/stuck'', [],
      ''worktree /repo/.worktrees/done'', ''HEAD 1a2b'', ''branch refs/heads/done'']"
  by (simp add: gc_listing_def trim_def is_space_def LF_def CR_def cons_first_def)

lemma gc_example_listed:
  assumes "baseDir w = ''/repo''"
    and l: "\<And>h cwd. R h ''git worktree list --porcelain'' cwd = Inr gc_listing"
    and c: "\<And>h cwd. R h ''git status --porcelain'' cwd =
      (if cwd = ''/repo/.worktrees/dirty'' then Inr ('' M notes.txt'' @ [LF]) else Inr [])"
  shows "fst (listWorktrees R w) = Inr (gc_listed w)"
proof -
  have "fst (listWorktrees R w) =
      Inr (fst (list_loop R (split_lines (trim gc_listing)) \<lparr>cur_path = None, cur_branch = None\<rparr> []
        (w\<lparr>issued := issued w @ [(''git worktree list --porcelain'', ''/repo'')]\<rparr>)))"
    by (simp add: listWorktrees_def exec_def l assms(1) split: prod.splits)
  also have "\<dots> = Inr (gc_listed w)"
    unfolding gc_listing_lines gc_listed_def
    by (simp add: push_current_def isClean_def exec_def c status_lines_def startsWith_def
        trim_def is_space_def LF_def CR_def cons_first_def getLockStatus_issued)
  finally show ?thesis .
qed








lemma gc_example_locks:
  "gc_locked w_gc ''/repo/.worktrees/held''" "\<not> gc_locked w_gc ''/repo/.worktrees/dirty''"
  "\<not> gc_locked w_gc ''/repo/.worktrees/stuck''" "\<not> gc_locked w_gc ''/repo/.worktrees/done''"
  by (simp_all add: gc_locked_def read_metadata_def w_gc_def empty_metadata_def)





text \<open>
  With a git that marks the branches checked out in other worktrees, the merge check
  misses them: \<open>branch_names\<close> takes off the marker \<open>*\<close> only, so the marker \<open>+\<close> stays in
  the name that is compared with the branch of the worktree. In the example repository the
  worktree \<open>done\<close> is eligible and every command of its removal succeeds, and \<open>gc\<close> removes
  nothing.
\<close>

lemma gc_marked_names:
  "branch_names (trim gc_marked_remote) = [''+ dirty'', ''+ held'', ''main'', ''+ stuck'']"
  "branch_names (trim gc_marked_local) = [''alpha'', ''+ done'', ''main'']"
  "listed_branches gc_marked_remote = [''dirty'', ''held'', ''main'', ''stuck'']"
  "listed_branches gc_marked_local = [''alpha'', ''done'', ''main'']"
  by (simp_all add: gc_marked_remote_def gc_marked_local_def branch_names_def listed_branches_def
      trim_def is_space_def LF_def CR_def cons_first_def startsWith_def)

lemma gc_marked_pushed:
  assumes "baseDir w = ''/repo''"
  shows "gc_pushed R_marked ''main'' (wt, w) =
     (wt_isClean wt \<and> \<not> gc_locked w (wt_path wt) \<and> wt_path wt \<noteq> ''/repo/.worktrees/stuck''
      \<and> wt_branch wt \<in> set [''+ dirty'', ''+ held'', ''main'', ''+ stuck'', ''alpha'', ''+ done''])"
  unfolding gc_pushed_def gc_try_def gc_isMerged_def exec_def R_marked_def R_gc_def
  by (auto simp add: gc_marked_names assms getLockStatus_issued truthy_lock)

lemma gc_skips_marked_branch:
  "gc_eligible R_marked ''main''
      \<lparr>wt_path = ''/repo/.worktrees/done'', wt_branch = ''done'', wt_isClean = True,
        wt_lockedBy = None\<rparr> w_gc
   \<and> gc_removal_succeeds R_marked ''main''
      \<lparr>wt_path = ''/repo/.worktrees/done'', wt_branch = ''done'', wt_isClean = True,
        wt_lockedBy = None\<rparr> w_gc
   \<and> fst (listWorktrees R_marked w_gc) = Inr (gc_listed w_gc)
   \<and> fst (gc R_marked ''main'' w_gc) = Inr []"
proof -
  have b: "baseDir w_gc = ''/repo''"
    by (simp add: w_gc_def)
  have eligible: "gc_eligible R_marked ''main''
      \<lparr>wt_path = ''/repo/.worktrees/done'', wt_branch = ''done'', wt_isClean = True,
        wt_lockedBy = None\<rparr> w_gc"
    unfolding gc_eligible_def gc_merged_def names_branch_def after_command_def R_marked_def
    by (simp add: gc_marked_names gc_example_locks)
  have succeeds: "gc_removal_succeeds R_marked ''main''
      \<lparr>wt_path = ''/repo/.worktrees/done'', wt_branch = ''done'', wt_isClean = True,
        wt_lockedBy = None\<rparr> w_gc"
    unfolding gc_removal_succeeds_def gc_after_check_def names_branch_def command_ok_def
      after_command_def R_marked_def R_gc_def
    by (simp add: gc_marked_names)
  have listed: "fst (listWorktrees R_marked w_gc) = Inr (gc_listed w_gc)"
    using b by (rule gc_example_listed) (simp_all add: R_marked_def R_gc_def)
  then have listing: "listWorktrees R_marked w_gc =
      (Inr (gc_listed w_gc), snd (listWorktrees R_marked w_gc))"
    by (metis prod.collapse)
  have st: "\<forall>h cmd cwd. R_marked h cmd cwd = R_marked [] cmd cwd"
    by (simp add: R_marked_def R_gc_def)
  have "fst (gc R_marked ''main'' w_gc) =
      Inr (map wt_branch (filter (\<lambda>wt. gc_pushed R_marked ''main'' (wt, w_gc)) (gc_listed w_gc)))"
    using listing st by (rule gc_run_stateless)
  also have "\<dots> = Inr []"
    by (simp add: gc_marked_pushed [OF b] gc_listed_def)
  finally have run: "fst (gc R_marked ''main'' w_gc) = Inr []" .
  show ?thesis
    by (intro conjI eligible succeeds listed run)
qed

section \<open>Properties of the port leases\<close>

lemma collect_ports_set:
  "set (collect_ports w worktrees usedPorts) =
     set usedPorts \<union> set (held_ports w (map wt_path worktrees))"
proof (induction worktrees arbitrary: usedPorts)
  case Nil
  show ?case by (simp add: held_ports_def)
next
  case (Cons wt worktrees)
  show ?case
    by (auto simp add: Cons.IH held_ports_def held_port_def
        split: metafile.splits option.splits)
qed

lemma first_free_spec:
  "first_free p usedPorts = q \<Longrightarrow>
     (q = - 1 \<and> (\<forall>x. p \<le> x \<and> x \<le> 8050 \<longrightarrow> x \<in> set usedPorts))
     \<or> (p \<le> q \<and> q \<le> 8050 \<and> q \<notin> set usedPorts \<and> (\<forall>x. p \<le> x \<and> x < q \<longrightarrow> x \<in> set usedPorts))"
proof (induction p usedPorts arbitrary: q rule: first_free.induct)
  case (1 p usedPorts)
  show ?case
  proof (cases "p \<le> 8050")
    case False
    then show ?thesis
      using "1.prems" by (auto simp add: first_free.simps [of p])
  next
    case True
    show ?thesis
    proof (cases "p \<in> set usedPorts")
      case False
      then show ?thesis
        using True "1.prems" by (auto simp add: first_free.simps [of p])
    next
      case inUse: True
      have rec: "first_free (p + 1) usedPorts = q"
        using True inUse "1.prems" by (simp add: first_free.simps [of p])
      have ih: "(q = - 1 \<and> (\<forall>x. p + 1 \<le> x \<and> x \<le> 8050 \<longrightarrow> x \<in> set usedPorts))
          \<or> (p + 1 \<le> q \<and> q \<le> 8050 \<and> q \<notin> set usedPorts
              \<and> (\<forall>x. p + 1 \<le> x \<and> x < q \<longrightarrow> x \<in> set usedPorts))"
        using "1.IH" [OF True _ rec] inUse by simp
      have step: "\<And>x. p \<le> x \<Longrightarrow> x = p \<or> p + 1 \<le> x"
        by arith
      from ih show ?thesis
      proof (elim disjE conjE)
        assume q: "q = - 1"
          and a: "\<forall>x. p + 1 \<le> x \<and> x \<le> 8050 \<longrightarrow> x \<in> set usedPorts"
        have "\<forall>x. p \<le> x \<and> x \<le> 8050 \<longrightarrow> x \<in> set usedPorts"
          using a inUse step by blast
        then show ?thesis
          using q by blast
      next
        assume q: "p + 1 \<le> q" "q \<le> 8050" "q \<notin> set usedPorts"
          and a: "\<forall>x. p + 1 \<le> x \<and> x < q \<longrightarrow> x \<in> set usedPorts"
        have "\<forall>x. p \<le> x \<and> x < q \<longrightarrow> x \<in> set usedPorts"
          using a inUse step by blast
        moreover have "p \<le> q"
          using q(1) by arith
        ultimately show ?thesis
          using q by blast
      qed
    qed
  qed
qed

lemma read_metadata_dirs: "dirs w' = dirs w \<Longrightarrow> read_metadata w' p = read_metadata w p"
  by (simp add: read_metadata_def)

lemma held_port_dirs: "dirs w' p = dirs w p \<Longrightarrow> held_port w' p = held_port w p"
  by (simp add: held_port_def read_metadata_def)

lemma held_ports_dirs: "dirs w' = dirs w \<Longrightarrow> held_ports w' paths = held_ports w paths"
  by (simp add: held_ports_def map_filter_def held_port_def read_metadata_def)

lemma held_ports_set: "set (held_ports w paths) = {q. \<exists>p \<in> set paths. held_port w p = Some q}"
  by (force simp add: held_ports_def map_filter_def image_iff)

lemma read_write_env: "read_metadata (write_env w p q) p' = read_metadata w p'"
  by (simp add: write_env_def read_metadata_def split: option.splits)

lemma baseDir_write_env: "baseDir (write_env w p q) = baseDir w"
  by (simp add: write_env_def split: option.splits)

lemma dirs_write_env_other: "p' \<noteq> p \<Longrightarrow> dirs (write_env w p q) p' = dirs w p'"
  by (simp add: write_env_def split: option.splits)

lemma portRequest_cases:
  assumes d: "dirs w (getWorktreeDir (baseDir w) feature) = Some d"
    and l: "listWorktrees R w = (Inr worktrees, w1)"
  shows "portRequest R feature w =
     (if first_free 8000 (collect_ports w1 worktrees []) = - 1 then (Inl RangeExhausted, w1)
      else if metadata_json d = Corrupt then (Inl JsonSyntaxError, w1)
      else (Inr (first_free 8000 (collect_ports w1 worktrees [])),
            write_env (put_metadata w1 (getWorktreeDir (baseDir w) feature)
              (Doc ((doc_or_empty (metadata_json d))
                 \<lparr>port := Some (first_free 8000 (collect_ports w1 worktrees []))\<rparr>)))
              (getWorktreeDir (baseDir w) feature)
              (first_free 8000 (collect_ports w1 worktrees []))))"
proof -
  have f: "dirs w1 = dirs w"
    using listWorktrees_frame [of R w] l by simp
  have r: "read_metadata w1 (getWorktreeDir (baseDir w) feature) = metadata_json d"
    using d by (simp add: read_metadata_def f)
  show ?thesis
    using d by (cases "metadata_json d")
      (simp_all add: portRequest_def Let_def l r doc_or_empty_def)
qed

lemma portRequest_used:
  assumes "listWorktrees R w = (Inr worktrees, w1)"
  shows "set (collect_ports w1 worktrees []) = set (held_ports w (map wt_path worktrees))"
proof -
  have "dirs w1 = dirs w"
    using listWorktrees_frame [of R w] assms by simp
  then have "held_ports w1 (map wt_path worktrees) = held_ports w (map wt_path worktrees)"
    by (rule held_ports_dirs)
  then show ?thesis
    by (simp add: collect_ports_set)
qed

lemma portRequest_NotFound:
  "dirs w (getWorktreeDir (baseDir w) feature) = None \<Longrightarrow>
     portRequest R feature w = (Inl (NotFound feature), w)"
  by (simp add: portRequest_def Let_def)

lemma portRequest_list_fails:
  "dirs w (getWorktreeDir (baseDir w) feature) = Some d \<Longrightarrow> listWorktrees R w = (Inl e, w1) \<Longrightarrow>
     portRequest R feature w = (Inl e, w1)"
  by (simp add: portRequest_def Let_def)

text \<open>A request that grants a port: what it grants and what it leaves.\<close>

lemma portRequest_granted:
  assumes "portRequest R feature w = (Inr q, w')"
  shows "\<exists>d worktrees w1.
     dirs w (getWorktreeDir (baseDir w) feature) = Some d \<and> metadata_json d \<noteq> Corrupt
     \<and> listWorktrees R w = (Inr worktrees, w1)
     \<and> 8000 \<le> q \<and> q \<le> 8050 \<and> q \<notin> set (held_ports w (map wt_path worktrees))
     \<and> (\<forall>x. 8000 \<le> x \<and> x < q \<longrightarrow> x \<in> set (held_ports w (map wt_path worktrees)))
     \<and> w' = write_env (put_metadata w1 (getWorktreeDir (baseDir w) feature)
              (Doc ((doc_or_empty (metadata_json d))\<lparr>port := Some q\<rparr>)))
              (getWorktreeDir (baseDir w) feature) q"
proof (cases "dirs w (getWorktreeDir (baseDir w) feature)")
  case None
  then show ?thesis
    using assms by (simp add: portRequest_NotFound)
next
  case (Some d)
  obtain r w1 where l: "listWorktrees R w = (r, w1)"
    by (cases "listWorktrees R w")
  show ?thesis
  proof (cases r)
    case (Inl e)
    then show ?thesis
      using assms portRequest_list_fails [OF Some, of R e w1] l by simp
  next
    case (Inr worktrees)
    have l': "listWorktrees R w = (Inr worktrees, w1)"
      using l Inr by simp
    define q' where "q' = first_free 8000 (collect_ports w1 worktrees [])"
    have c: "portRequest R feature w =
        (if q' = - 1 then (Inl RangeExhausted, w1)
         else if metadata_json d = Corrupt then (Inl JsonSyntaxError, w1)
         else (Inr q', write_env (put_metadata w1 (getWorktreeDir (baseDir w) feature)
              (Doc ((doc_or_empty (metadata_json d))\<lparr>port := Some q'\<rparr>)))
              (getWorktreeDir (baseDir w) feature) q'))"
      using portRequest_cases [OF Some l'] by (simp add: q'_def)
    have ne: "q' \<noteq> - 1" and rd: "metadata_json d \<noteq> Corrupt" and q: "q = q'"
      and w': "w' = write_env (put_metadata w1 (getWorktreeDir (baseDir w) feature)
              (Doc ((doc_or_empty (metadata_json d))\<lparr>port := Some q'\<rparr>)))
              (getWorktreeDir (baseDir w) feature) q'"
      using assms c by (auto split: if_splits)
    have "(q' = - 1 \<and> (\<forall>x. 8000 \<le> x \<and> x \<le> 8050 \<longrightarrow> x \<in> set (collect_ports w1 worktrees [])))
       \<or> (8000 \<le> q' \<and> q' \<le> 8050 \<and> q' \<notin> set (collect_ports w1 worktrees [])
           \<and> (\<forall>x. 8000 \<le> x \<and> x < q' \<longrightarrow> x \<in> set (collect_ports w1 worktrees [])))"
      by (rule first_free_spec) (simp add: q'_def)
    then have "8000 \<le> q' \<and> q' \<le> 8050 \<and> q' \<notin> set (held_ports w (map wt_path worktrees))
        \<and> (\<forall>x. 8000 \<le> x \<and> x < q' \<longrightarrow> x \<in> set (held_ports w (map wt_path worktrees)))"
      using ne by (simp add: portRequest_used [OF l'])
    then show ?thesis
      using Some rd l' w' q by blast
  qed
qed

lemma portRequest_effect:
  assumes "portRequest R feature w = (Inr q, w')"
  shows "held_port w' (getWorktreeDir (baseDir w) feature) = Some q \<and> baseDir w' = baseDir w
     \<and> (\<forall>p. p \<noteq> getWorktreeDir (baseDir w) feature \<longrightarrow> dirs w' p = dirs w p)"
proof -
  obtain d worktrees w1 where d: "dirs w (getWorktreeDir (baseDir w) feature) = Some d"
    and l: "listWorktrees R w = (Inr worktrees, w1)" and q: "8000 \<le> q"
    and w': "w' = write_env (put_metadata w1 (getWorktreeDir (baseDir w) feature)
              (Doc ((doc_or_empty (metadata_json d))\<lparr>port := Some q\<rparr>)))
              (getWorktreeDir (baseDir w) feature) q"
    using portRequest_granted [OF assms] by blast
  have f: "dirs w1 = dirs w" and b: "baseDir w1 = baseDir w"
    using listWorktrees_frame [of R w] l by simp_all
  have d1: "dirs w1 (getWorktreeDir (baseDir w) feature) \<noteq> None"
    using d by (simp add: f)
  have "read_metadata w' (getWorktreeDir (baseDir w) feature) =
      Doc ((doc_or_empty (metadata_json d))\<lparr>port := Some q\<rparr>)"
    using d1 by (simp add: w' read_write_env read_put_metadata)
  then have h: "held_port w' (getWorktreeDir (baseDir w) feature) = Some q"
    using q by (simp add: held_port_def)
  have o: "\<forall>p. p \<noteq> getWorktreeDir (baseDir w) feature \<longrightarrow> dirs w' p = dirs w p"
    by (simp add: w' dirs_write_env_other dirs_put_metadata f)
  show ?thesis
    using h o by (simp add: w' baseDir_write_env baseDir_put_metadata b)
qed

lemma portRequest_failed_frame:
  assumes "portRequest R feature w = (Inl e, w')"
  shows "dirs w' = dirs w \<and> baseDir w' = baseDir w"
proof (cases "dirs w (getWorktreeDir (baseDir w) feature)")
  case None
  then show ?thesis
    using assms by (simp add: portRequest_NotFound)
next
  case (Some d)
  obtain r w1 where l: "listWorktrees R w = (r, w1)"
    by (cases "listWorktrees R w")
  have f: "dirs w1 = dirs w \<and> baseDir w1 = baseDir w"
    using listWorktrees_frame [of R w] l by simp
  show ?thesis
  proof (cases r)
    case (Inl e')
    then show ?thesis
      using assms portRequest_list_fails [OF Some, of R e' w1] l f by simp
  next
    case (Inr worktrees)
    then have "w' = w1"
      using assms portRequest_cases [OF Some, of R worktrees w1] l by (auto split: if_splits)
    then show ?thesis
      using f by simp
  qed
qed

lemma portRequest_avoids_listed:
  assumes "portRequest R feature w = (Inr q, w')"
    and "listWorktrees R w = (Inr worktrees, w1)" and "p \<in> wt_path ` set worktrees"
  shows "held_port w p \<noteq> Some q"
proof -
  have "q \<notin> set (held_ports w (map wt_path worktrees))"
    using portRequest_granted [OF assms(1)] assms(2) by auto
  then show ?thesis
    using assms(3) by (auto simp add: held_ports_set)
qed

text \<open>
  Requests one after the other: the ports granted differ from each other and from the
  ports held by listed worktrees that do not take part.
\<close>

lemma portRequests_distinct:
  assumes listed: "\<And>v worktrees v'. baseDir v = base \<Longrightarrow> listWorktrees R v = (Inr worktrees, v') \<Longrightarrow>
      P \<subseteq> wt_path ` set worktrees"
  shows "baseDir w = base \<Longrightarrow> distinct (map (getWorktreeDir base) features) \<Longrightarrow>
     getWorktreeDir base ` set features \<subseteq> P \<Longrightarrow> Q \<subseteq> P \<Longrightarrow>
     Q \<inter> getWorktreeDir base ` set features = {} \<Longrightarrow>
     distinct (granted (fst (portRequests R features w)))
     \<and> (\<forall>q \<in> set (granted (fst (portRequests R features w))). \<forall>p \<in> Q. held_port w p \<noteq> Some q)"
proof (induction features arbitrary: w Q)
  case Nil
  show ?case by simp
next
  case (Cons feature features)
  obtain r w' where req: "portRequest R feature w = (r, w')"
    by (cases "portRequest R feature w")
  obtain rs w'' where rest: "portRequests R features w' = (rs, w'')"
    by (cases "portRequests R features w'")
  have run: "fst (portRequests R (feature # features) w) = r # rs"
    by (simp add: req rest)
  have b: "baseDir w = base"
    by (rule Cons.prems(1))
  have dis: "distinct (map (getWorktreeDir base) features)"
    and notin: "getWorktreeDir base feature \<notin> getWorktreeDir base ` set features"
    using Cons.prems(2) by simp_all
  have inP: "getWorktreeDir base ` set features \<subseteq> P" and fP: "getWorktreeDir base feature \<in> P"
    using Cons.prems(3) by simp_all
  have QP: "Q \<subseteq> P"
    by (rule Cons.prems(4))
  have Qf: "getWorktreeDir base feature \<notin> Q" and Qfs: "Q \<inter> getWorktreeDir base ` set features = {}"
    using Cons.prems(5) by auto
  show ?case
  proof (cases r)
    case (Inl e)
    have f: "dirs w' = dirs w" and b': "baseDir w' = base"
      using portRequest_failed_frame [of R feature w e w'] req Inl b by simp_all
    have ih: "distinct (granted rs) \<and> (\<forall>q \<in> set (granted rs). \<forall>p \<in> Q. held_port w' p \<noteq> Some q)"
      using Cons.IH [OF b' dis inP QP Qfs] rest by simp
    have "\<And>p. held_port w' p = held_port w p"
      by (rule held_port_dirs) (simp add: f)
    then show ?thesis
      unfolding run using ih Inl by simp
  next
    case (Inr q)
    have req': "portRequest R feature w = (Inr q, w')"
      using req Inr by simp
    have eff: "held_port w' (getWorktreeDir base feature) = Some q" and b': "baseDir w' = base"
      and other: "\<And>p. p \<noteq> getWorktreeDir base feature \<Longrightarrow> dirs w' p = dirs w p"
      using portRequest_effect [OF req'] b by simp_all
    obtain worktrees w1 where l: "listWorktrees R w = (Inr worktrees, w1)"
      using portRequest_granted [OF req'] by blast
    have Pl: "P \<subseteq> wt_path ` set worktrees"
      using listed [OF b l] .
    have fresh: "\<And>p. p \<in> P \<Longrightarrow> held_port w p \<noteq> Some q"
      using portRequest_avoids_listed [OF req' l] Pl by blast
    define Q' where "Q' = insert (getWorktreeDir base feature) Q"
    have Q'P: "Q' \<subseteq> P"
      using QP fP by (simp add: Q'_def)
    have Q'fs: "Q' \<inter> getWorktreeDir base ` set features = {}"
      using Qfs notin by (simp add: Q'_def)
    have ih: "distinct (granted rs) \<and> (\<forall>x \<in> set (granted rs). \<forall>p \<in> Q'. held_port w' p \<noteq> Some x)"
      using Cons.IH [OF b' dis inP Q'P Q'fs] rest by simp
    have notq: "q \<notin> set (granted rs)"
      using ih eff by (auto simp add: Q'_def)
    have keep: "\<And>p. p \<in> Q \<Longrightarrow> held_port w' p = held_port w p"
    proof -
      fix p
      assume "p \<in> Q"
      then have "p \<noteq> getWorktreeDir base feature"
        using Qf by auto
      then have "dirs w' p = dirs w p"
        by (rule other)
      then show "held_port w' p = held_port w p"
        by (rule held_port_dirs)
    qed
    have old: "\<forall>x \<in> set (granted rs). \<forall>p \<in> Q. held_port w p \<noteq> Some x"
      using ih keep by (simp add: Q'_def)
    have new: "\<forall>p \<in> Q. held_port w p \<noteq> Some q"
      using fresh QP by blast
    show ?thesis
      unfolding run using ih notq old new Inr by simp
  qed
qed

lemma portRelease_effect:
  assumes "portRelease feature w = (Inr (), w')"
  shows "held_port w' (getWorktreeDir (baseDir w) feature) = None \<and> baseDir w' = baseDir w
     \<and> (\<forall>p. p \<noteq> getWorktreeDir (baseDir w) feature \<longrightarrow> dirs w' p = dirs w p)"
proof (cases "dirs w (getWorktreeDir (baseDir w) feature)")
  case None
  then show ?thesis
    using assms by (simp add: portRelease_def Let_def)
next
  case (Some d)
  show ?thesis
  proof (cases "read_metadata w (getWorktreeDir (baseDir w) feature)")
    case NoFile
    then show ?thesis
      using assms Some by (auto simp add: portRelease_def Let_def held_port_def)
  next
    case Corrupt
    then show ?thesis
      using assms Some by (simp add: portRelease_def Let_def)
  next
    case (Doc data)
    show ?thesis
    proof (cases "truthy_num (port data)")
      case True
      then have w': "w' = put_metadata w (getWorktreeDir (baseDir w) feature) (Doc (data\<lparr>port := None\<rparr>))"
        using assms Some Doc by (simp add: portRelease_def Let_def)
      show ?thesis
        using Some by (simp add: w' held_port_def read_put_metadata baseDir_put_metadata dirs_put_metadata)
    next
      case False
      then have w': "w' = w"
        using assms Some Doc by (simp add: portRelease_def Let_def)
      show ?thesis
        using False Doc by (auto simp add: w' held_port_def truthy_num_def split: option.splits)
    qed
  qed
qed

lemma ports_listing_lines:
  "split_lines (trim ports_listing) =
     [''worktree /repo'', ''HEAD 1a2b'', ''branch refs/heads/main'', [],
      ''worktree /repo/.worktrees/a'', ''HEAD 3c4d'', ''detached'', [],
      ''worktree /repo/.worktrees/b'', ''HEAD 1a2b'', ''branch refs/heads/b'', [],
      ''worktree /repo/.worktrees/c'', ''HEAD 1a2b'', ''branch refs/heads/c'', [],
      ''worktree /repo/.worktrees/d'', ''HEAD 1a2b'', ''branch refs/heads/d'']"
  by (simp add: ports_listing_def trim_def is_space_def LF_def CR_def cons_first_def)

lemma ports_listed:
  assumes "baseDir w = ''/repo''"
  shows "fst (listWorktrees R_ports w) = Inr (ports_worktrees w)"
proof -
  have c: "\<And>h cwd. R_ports h ''git status --porcelain'' cwd = Inr []"
    by (simp add: R_ports_def)
  have l: "\<And>h cwd. R_ports h ''git worktree list --porcelain'' cwd = Inr ports_listing"
    by (simp add: R_ports_def)
  have "fst (listWorktrees R_ports w) =
      Inr (fst (list_loop R_ports (split_lines (trim ports_listing)) \<lparr>cur_path = None, cur_branch = None\<rparr> []
        (w\<lparr>issued := issued w @ [(''git worktree list --porcelain'', ''/repo'')]\<rparr>)))"
    by (simp add: listWorktrees_def exec_def l assms split: prod.splits)
  also have "\<dots> = Inr (ports_worktrees w)"
    unfolding ports_listing_lines
    by (simp add: push_current_def isClean_def exec_def c status_lines_def startsWith_def
        trim_def is_space_def LF_def CR_def cons_first_def getLockStatus_issued ports_worktrees_def)
  finally show ?thesis .
qed

lemma ports_dirs:
  "getWorktreeDir ''/repo'' ''a'' = ''/repo/.worktrees/a''"
  "getWorktreeDir ''/repo'' ''b'' = ''/repo/.worktrees/b''"
  "getWorktreeDir ''/repo'' ''c'' = ''/repo/.worktrees/c''"
  "getWorktreeDir ''/repo'' ''d'' = ''/repo/.worktrees/d''"
  by (simp_all add: getWorktreeDir_def normalize_feature_def is_alnum_dash_def)

lemma portRequest_exhausted:
  assumes d: "dirs w (getWorktreeDir (baseDir w) feature) = Some d"
    and l: "listWorktrees R w = (Inr worktrees, w1)"
    and full: "\<forall>x. 8000 \<le> x \<and> x \<le> 8050 \<longrightarrow> x \<in> set (held_ports w (map wt_path worktrees))"
  shows "portRequest R feature w = (Inl RangeExhausted, w1)"
proof -
  define q where "q = first_free 8000 (collect_ports w1 worktrees [])"
  have "(q = - 1 \<and> (\<forall>x. 8000 \<le> x \<and> x \<le> 8050 \<longrightarrow> x \<in> set (collect_ports w1 worktrees [])))
     \<or> (8000 \<le> q \<and> q \<le> 8050 \<and> q \<notin> set (collect_ports w1 worktrees [])
         \<and> (\<forall>x. 8000 \<le> x \<and> x < q \<longrightarrow> x \<in> set (collect_ports w1 worktrees [])))"
    by (rule first_free_spec) (simp add: q_def)
  then have "q = - 1"
    using full by (auto simp add: portRequest_used [OF l])
  then show ?thesis
    using portRequest_cases [OF d l] by (simp add: q_def)
qed

lemma portRequest_free:
  assumes d: "dirs w (getWorktreeDir (baseDir w) feature) = Some d"
    and rd: "metadata_json d \<noteq> Corrupt"
    and l: "listWorktrees R w = (Inr worktrees, w1)"
    and free: "\<exists>x. 8000 \<le> x \<and> x \<le> 8050 \<and> x \<notin> set (held_ports w (map wt_path worktrees))"
  shows "\<exists>q. portRequest R feature w =
       (Inr q, write_env (put_metadata w1 (getWorktreeDir (baseDir w) feature)
          (Doc ((doc_or_empty (metadata_json d))\<lparr>port := Some q\<rparr>)))
          (getWorktreeDir (baseDir w) feature) q)
     \<and> 8000 \<le> q \<and> q \<le> 8050 \<and> q \<notin> set (held_ports w (map wt_path worktrees))
     \<and> (\<forall>x. 8000 \<le> x \<and> x < q \<longrightarrow> x \<in> set (held_ports w (map wt_path worktrees)))"
proof -
  define q where "q = first_free 8000 (collect_ports w1 worktrees [])"
  have "(q = - 1 \<and> (\<forall>x. 8000 \<le> x \<and> x \<le> 8050 \<longrightarrow> x \<in> set (collect_ports w1 worktrees [])))
     \<or> (8000 \<le> q \<and> q \<le> 8050 \<and> q \<notin> set (collect_ports w1 worktrees [])
         \<and> (\<forall>x. 8000 \<le> x \<and> x < q \<longrightarrow> x \<in> set (collect_ports w1 worktrees [])))"
    by (rule first_free_spec) (simp add: q_def)
  then have q: "8000 \<le> q \<and> q \<le> 8050 \<and> q \<notin> set (held_ports w (map wt_path worktrees))
      \<and> (\<forall>x. 8000 \<le> x \<and> x < q \<longrightarrow> x \<in> set (held_ports w (map wt_path worktrees)))"
    using free by (auto simp add: portRequest_used [OF l])
  then have "q \<noteq> - 1"
    by arith
  then have "portRequest R feature w =
       (Inr q, write_env (put_metadata w1 (getWorktreeDir (baseDir w) feature)
          (Doc ((doc_or_empty (metadata_json d))\<lparr>port := Some q\<rparr>)))
          (getWorktreeDir (baseDir w) feature) q)"
    using portRequest_cases [OF d l] rd by (simp add: q_def)
  then show ?thesis
    using q by blast
qed

lemma portRequest_smallest:
  assumes d: "dirs w (getWorktreeDir (baseDir w) feature) = Some d"
    and rd: "metadata_json d \<noteq> Corrupt"
    and l: "listWorktrees R w = (Inr worktrees, w1)"
    and c: "8000 \<le> c" "c \<le> 8050" "c \<notin> set (held_ports w (map wt_path worktrees))"
    and below: "\<forall>x. 8000 \<le> x \<and> x < c \<longrightarrow> x \<in> set (held_ports w (map wt_path worktrees))"
  shows "portRequest R feature w =
       (Inr c, write_env (put_metadata w1 (getWorktreeDir (baseDir w) feature)
          (Doc ((doc_or_empty (metadata_json d))\<lparr>port := Some c\<rparr>)))
          (getWorktreeDir (baseDir w) feature) c)"
proof -
  have "\<exists>x. 8000 \<le> x \<and> x \<le> 8050 \<and> x \<notin> set (held_ports w (map wt_path worktrees))"
    using c by blast
  then obtain q where run: "portRequest R feature w =
       (Inr q, write_env (put_metadata w1 (getWorktreeDir (baseDir w) feature)
          (Doc ((doc_or_empty (metadata_json d))\<lparr>port := Some q\<rparr>)))
          (getWorktreeDir (baseDir w) feature) q)"
    and q: "8000 \<le> q" "q \<notin> set (held_ports w (map wt_path worktrees))"
    and qbelow: "\<forall>x. 8000 \<le> x \<and> x < q \<longrightarrow> x \<in> set (held_ports w (map wt_path worktrees))"
    using portRequest_free [OF d rd l] by blast
  have "\<not> q < c"
    using below q by blast
  moreover have "\<not> c < q"
    using qbelow c by blast
  ultimately have "q = c"
    by arith
  then show ?thesis
    using run by simp
qed

text \<open>
  C5, as stated, fails: a worktree whose head is detached is not among the worktrees
  that are listed, so the port it holds is not seen. Here the
  distinct worktrees \<open>a\<close> and \<open>b\<close> request one after the other, with no release, and both
  are given 8001, which \<open>a\<close> holds when \<open>b\<close> asks.
\<close>

theorem portRequest_same_port_counterexample:
  "getWorktreeDir (baseDir w_ports) ''a'' \<noteq> getWorktreeDir (baseDir w_ports) ''b''
   \<and> fst (portRequest R_ports ''a'' w_ports) = Inr 8001
   \<and> held_port (snd (portRequest R_ports ''a'' w_ports)) ''/repo/.worktrees/a'' = Some 8001
   \<and> fst (portRequest R_ports ''b'' (snd (portRequest R_ports ''a'' w_ports))) = Inr 8001"
proof -
  have b: "baseDir w_ports = ''/repo''"
    by (simp add: w_ports_def)
  have da: "dirs w_ports (getWorktreeDir (baseDir w_ports) ''a'') =
      Some \<lparr>metadata_json = NoFile, env_local = None\<rparr>"
    by (simp add: b ports_dirs) (simp add: w_ports_def)
  have rd: "metadata_json \<lparr>metadata_json = NoFile, env_local = None\<rparr> \<noteq> Corrupt"
    by simp
  have l: "listWorktrees R_ports w_ports = (Inr (ports_worktrees w_ports), snd (listWorktrees R_ports w_ports))"
    using ports_listed [OF b] by (metis prod.collapse)
  have h: "held_ports w_ports (map wt_path (ports_worktrees w_ports)) = [8000]"
    by (simp add: held_ports_def map_filter_def ports_worktrees_def held_port_def read_metadata_def
        w_ports_def empty_metadata_def)
  have c: "(8000::int) \<le> 8001" "(8001::int) \<le> 8050"
    "8001 \<notin> set (held_ports w_ports (map wt_path (ports_worktrees w_ports)))"
    "\<forall>x. 8000 \<le> x \<and> x < 8001 \<longrightarrow> x \<in> set (held_ports w_ports (map wt_path (ports_worktrees w_ports)))"
    by (simp_all add: h)
  define wa where "wa = snd (portRequest R_ports ''a'' w_ports)"
  have first: "portRequest R_ports ''a'' w_ports = (Inr 8001, wa)"
    using portRequest_smallest [OF da rd l c] by (simp add: wa_def)
  have ea: "held_port wa ''/repo/.worktrees/a'' = Some 8001" and ba: "baseDir wa = ''/repo''"
    and oa: "\<And>p. p \<noteq> ''/repo/.worktrees/a'' \<Longrightarrow> dirs wa p = dirs w_ports p"
    using portRequest_effect [OF first] by (simp_all add: b ports_dirs)
  have db: "dirs wa (getWorktreeDir (baseDir wa) ''b'') = Some \<lparr>metadata_json = NoFile, env_local = None\<rparr>"
    by (simp add: ba ports_dirs oa) (simp add: w_ports_def)
  have la: "listWorktrees R_ports wa = (Inr (ports_worktrees wa), snd (listWorktrees R_ports wa))"
    using ports_listed [OF ba] by (metis prod.collapse)
  have "held_ports wa (map wt_path (ports_worktrees wa)) =
      held_ports w_ports (map wt_path (ports_worktrees w_ports))"
    by (simp add: held_ports_def map_filter_def ports_worktrees_def held_port_def read_metadata_def oa)
  then have ha: "held_ports wa (map wt_path (ports_worktrees wa)) = [8000]"
    by (simp add: h)
  have ca: "(8000::int) \<le> 8001" "(8001::int) \<le> 8050"
    "8001 \<notin> set (held_ports wa (map wt_path (ports_worktrees wa)))"
    "\<forall>x. 8000 \<le> x \<and> x < 8001 \<longrightarrow> x \<in> set (held_ports wa (map wt_path (ports_worktrees wa)))"
    by (simp_all add: ha)
  have second: "fst (portRequest R_ports ''b'' wa) = Inr 8001"
    using portRequest_smallest [OF db rd la ca] by simp
  have ne: "getWorktreeDir (baseDir w_ports) ''a'' \<noteq> getWorktreeDir (baseDir w_ports) ''b''"
    by (simp add: b ports_dirs)
  show ?thesis
    using ne first ea second by (simp add: wa_def [symmetric])
qed

text \<open>
  C10, as stated, fails for a worktree that is not listed: the worktree \<open>a\<close>, whose head
  is detached, holds port 8001, the scan does not see it, and its second request returns
  8001 again.
\<close>

theorem portRequest_detached_counterexample:
  "dirs w_leased (getWorktreeDir (baseDir w_leased) ''a'') \<noteq> None
   \<and> held_port w_leased (getWorktreeDir (baseDir w_leased) ''a'') = Some 8001
   \<and> fst (portRequest R_ports ''a'' w_leased) = Inr 8001"
proof -
  have b: "baseDir w_leased = ''/repo''"
    by (simp add: w_leased_def)
  have da: "dirs w_leased (getWorktreeDir (baseDir w_leased) ''a'') =
      Some \<lparr>metadata_json = Doc (empty_metadata\<lparr>port := Some 8001\<rparr>),
        env_local = Some (''PORT=8001'' @ [LF])\<rparr>"
    by (simp add: b ports_dirs) (simp add: w_leased_def)
  have rd: "metadata_json \<lparr>metadata_json = Doc (empty_metadata\<lparr>port := Some 8001\<rparr>),
        env_local = Some (''PORT=8001'' @ [LF])\<rparr> \<noteq> Corrupt"
    by simp
  have l: "listWorktrees R_ports w_leased =
      (Inr (ports_worktrees w_leased), snd (listWorktrees R_ports w_leased))"
    using ports_listed [OF b] by (metis prod.collapse)
  have h: "held_ports w_leased (map wt_path (ports_worktrees w_leased)) = [8000]"
    by (simp add: held_ports_def map_filter_def ports_worktrees_def held_port_def read_metadata_def
        w_leased_def empty_metadata_def)
  have c: "(8000::int) \<le> 8001" "(8001::int) \<le> 8050"
    "8001 \<notin> set (held_ports w_leased (map wt_path (ports_worktrees w_leased)))"
    "\<forall>x. 8000 \<le> x \<and> x < 8001 \<longrightarrow> x \<in> set (held_ports w_leased (map wt_path (ports_worktrees w_leased)))"
    by (simp_all add: h)
  have again: "fst (portRequest R_ports ''a'' w_leased) = Inr 8001"
    using portRequest_smallest [OF da rd l c] by simp
  have held: "held_port w_leased (getWorktreeDir (baseDir w_leased) ''a'') = Some 8001"
    by (simp add: held_port_def read_metadata_def da empty_metadata_def)
  show ?thesis
    using da again held by simp
qed

text \<open>
  C10, amended. For every feature whose worktree exists, is among the worktrees that are
  listed (registered, on a branch, under \<open>.worktrees\<close>) and already holds a leased port p, a
  second \<open>portRequest(feature)\<close> never returns p: the worktree's own port counts as used
  during the scan. Either every port of the range is in use and the request fails with
  RangeExhausted, or the smallest port q not held by a listed worktree is returned, q
  differs from p, and q replaces p in the metadata document, so that p is no longer held
  by this worktree.
\<close>

theorem portRequest_again_moves_lease:
  assumes "dirs w (getWorktreeDir (baseDir w) feature) = Some d"
    and "metadata_json d = Doc data" and "port data = Some p" and "p \<noteq> 0"
    and "listWorktrees R w = (Inr worktrees, w1)"
    and "getWorktreeDir (baseDir w) feature \<in> wt_path ` set worktrees"
  shows "p \<in> set (held_ports w (map wt_path worktrees))
     \<and> fst (portRequest R feature w) \<noteq> Inr p
     \<and> (fst (portRequest R feature w) = Inl RangeExhausted
        \<or> (\<exists>q. fst (portRequest R feature w) = Inr q \<and> q \<noteq> p \<and> 8000 \<le> q \<and> q \<le> 8050
             \<and> q \<notin> set (held_ports w (map wt_path worktrees))
             \<and> (\<forall>x. 8000 \<le> x \<and> x < q \<longrightarrow> x \<in> set (held_ports w (map wt_path worktrees)))
             \<and> read_metadata (snd (portRequest R feature w)) (getWorktreeDir (baseDir w) feature) =
                 Doc (data\<lparr>port := Some q\<rparr>)
             \<and> held_port (snd (portRequest R feature w)) (getWorktreeDir (baseDir w) feature) = Some q))"
proof -
  have own: "held_port w (getWorktreeDir (baseDir w) feature) = Some p"
    using assms(1-4) by (simp add: held_port_def read_metadata_def)
  then have used: "p \<in> set (held_ports w (map wt_path worktrees))"
    using assms(6) by (auto simp add: held_ports_set)
  have rd: "metadata_json d \<noteq> Corrupt"
    using assms(2) by simp
  have f: "dirs w1 = dirs w"
    using listWorktrees_frame [of R w] assms(5) by simp
  have d1: "dirs w1 (getWorktreeDir (baseDir w) feature) \<noteq> None"
    using assms(1) by (simp add: f)
  show ?thesis
  proof (cases "\<exists>x. 8000 \<le> x \<and> x \<le> 8050 \<and> x \<notin> set (held_ports w (map wt_path worktrees))")
    case False
    then have "portRequest R feature w = (Inl RangeExhausted, w1)"
      using portRequest_exhausted [OF assms(1) assms(5)] by blast
    then show ?thesis
      using used by simp
  next
    case True
    obtain q where run: "portRequest R feature w =
       (Inr q, write_env (put_metadata w1 (getWorktreeDir (baseDir w) feature)
          (Doc ((doc_or_empty (metadata_json d))\<lparr>port := Some q\<rparr>)))
          (getWorktreeDir (baseDir w) feature) q)"
      and q: "8000 \<le> q" "q \<le> 8050" "q \<notin> set (held_ports w (map wt_path worktrees))"
        "\<forall>x. 8000 \<le> x \<and> x < q \<longrightarrow> x \<in> set (held_ports w (map wt_path worktrees))"
      using portRequest_free [OF assms(1) rd assms(5) True] by blast
    have ne: "q \<noteq> p"
      using q(3) used by auto
    have doc: "read_metadata (snd (portRequest R feature w)) (getWorktreeDir (baseDir w) feature) =
        Doc (data\<lparr>port := Some q\<rparr>)"
      using d1 by (simp add: run read_write_env read_put_metadata assms(2) doc_or_empty_def)
    have held: "held_port (snd (portRequest R feature w)) (getWorktreeDir (baseDir w) feature) = Some q"
      using q(1) by (simp add: held_port_def doc)
    have res: "fst (portRequest R feature w) = Inr q"
      by (simp add: run)
    show ?thesis
      using used res ne q doc held by auto
  qed
qed

theorem portRequest_again_moves_lease_witness:
  "held_port w_ports ''/repo/.worktrees/c'' = Some 8000
   \<and> ''/repo/.worktrees/c'' \<in> wt_path ` set (ports_worktrees w_ports)
   \<and> fst (listWorktrees R_ports w_ports) = Inr (ports_worktrees w_ports)
   \<and> fst (portRequest R_ports ''c'' w_ports) = Inr 8001
   \<and> held_port (snd (portRequest R_ports ''c'' w_ports)) ''/repo/.worktrees/c'' = Some 8001"
proof -
  have b: "baseDir w_ports = ''/repo''"
    by (simp add: w_ports_def)
  have dc: "dirs w_ports (getWorktreeDir (baseDir w_ports) ''c'') =
      Some \<lparr>metadata_json = Doc (empty_metadata\<lparr>port := Some 8000\<rparr>),
        env_local = Some (''PORT=8000'' @ [LF])\<rparr>"
    by (simp add: b ports_dirs) (simp add: w_ports_def)
  have m: "metadata_json \<lparr>metadata_json = Doc (empty_metadata\<lparr>port := Some 8000\<rparr>),
        env_local = Some (''PORT=8000'' @ [LF])\<rparr> = Doc (empty_metadata\<lparr>port := Some 8000\<rparr>)"
    by simp
  have p: "port (empty_metadata\<lparr>port := Some 8000\<rparr>) = Some 8000" and nz: "(8000::int) \<noteq> 0"
    by simp_all
  have lf: "fst (listWorktrees R_ports w_ports) = Inr (ports_worktrees w_ports)"
    by (rule ports_listed [OF b])
  then have l: "listWorktrees R_ports w_ports =
      (Inr (ports_worktrees w_ports), snd (listWorktrees R_ports w_ports))"
    by (metis prod.collapse)
  have inl: "getWorktreeDir (baseDir w_ports) ''c'' \<in> wt_path ` set (ports_worktrees w_ports)"
    by (simp add: b ports_dirs ports_worktrees_def)
  have h: "held_ports w_ports (map wt_path (ports_worktrees w_ports)) = [8000]"
    by (simp add: held_ports_def map_filter_def ports_worktrees_def held_port_def read_metadata_def
        w_ports_def empty_metadata_def)
  have hc: "held_port w_ports ''/repo/.worktrees/c'' = Some 8000"
    by (simp add: held_port_def read_metadata_def w_ports_def empty_metadata_def)
  have "fst (portRequest R_ports ''c'' w_ports) = Inl RangeExhausted
      \<or> (\<exists>q. fst (portRequest R_ports ''c'' w_ports) = Inr q \<and> q \<noteq> 8000 \<and> 8000 \<le> q \<and> q \<le> 8050
           \<and> q \<notin> set [8000::int] \<and> (\<forall>x. 8000 \<le> x \<and> x < q \<longrightarrow> x \<in> set [8000::int])
           \<and> held_port (snd (portRequest R_ports ''c'' w_ports)) ''/repo/.worktrees/c'' = Some q)"
    using portRequest_again_moves_lease [OF dc m p nz l inl] by (simp add: h b ports_dirs) blast
  moreover have "fst (portRequest R_ports ''c'' w_ports) \<noteq> Inl RangeExhausted"
  proof
    assume "fst (portRequest R_ports ''c'' w_ports) = Inl RangeExhausted"
    moreover have "\<exists>x. 8000 \<le> x \<and> x \<le> 8050 \<and> x \<notin> set (held_ports w_ports (map wt_path (ports_worktrees w_ports)))"
      by (rule exI [of _ 8001]) (simp add: h)
    ultimately show False
      using portRequest_free [OF dc _ l] by auto
  qed
  ultimately obtain q where q: "fst (portRequest R_ports ''c'' w_ports) = Inr q" "8000 \<le> q" "q \<noteq> 8000"
    "\<forall>x. 8000 \<le> x \<and> x < q \<longrightarrow> x \<in> set [8000::int]"
    "held_port (snd (portRequest R_ports ''c'' w_ports)) ''/repo/.worktrees/c'' = Some q"
    by auto
  have "\<not> 8001 < q"
  proof
    assume "8001 < q"
    then have "(8001::int) \<in> set [8000]"
      using q(4) [rule_format, of 8001] by simp
    then show False
      by simp
  qed
  then have "q = 8001"
    using q(2,3) by arith
  then show ?thesis
    using q hc lf inl by (simp add: b ports_dirs)
qed

text \<open>Reading a listing that is well formed: lines, then entries.\<close>

lemma split_lines_single: "LF \<notin> set l \<Longrightarrow> CR \<notin> set l \<Longrightarrow> split_lines l = [l]"
proof (induction l rule: split_lines.induct)
  case 1
  show ?case by simp
next
  case (2 c)
  then show ?case by simp
next
  case (3 c d cs)
  then show ?case by (auto simp add: cons_first_def)
qed

lemma split_lines_line:
  "LF \<notin> set l \<Longrightarrow> CR \<notin> set l \<Longrightarrow> split_lines (l @ LF # rest) = l # split_lines rest"
proof (induction l)
  case Nil
  show ?case by (cases rest) simp_all
next
  case (Cons c l)
  have ih: "split_lines (l @ LF # rest) = l # split_lines rest"
    using Cons by simp
  obtain d cs where dc: "l @ LF # rest = d # cs"
    by (cases "l @ LF # rest") simp_all
  have "c \<noteq> LF" and "c \<noteq> CR"
    using Cons.prems by auto
  then have "split_lines (c # d # cs) = cons_first c (split_lines (d # cs))"
    by simp
  then show ?case
    using ih by (simp add: dc [symmetric] cons_first_def)
qed

lemma split_join_lines:
  "ls \<noteq> [] \<Longrightarrow> \<forall>l \<in> set ls. LF \<notin> set l \<and> CR \<notin> set l \<Longrightarrow> split_lines (join_lines ls) = ls"
proof (induction ls rule: join_lines.induct)
  case 1
  then show ?case by simp
next
  case (2 l)
  then show ?case by (simp add: split_lines_single)
next
  case (3 l l' ls)
  then show ?case by (simp add: split_lines_line)
qed

lemma hd_join_lines: "l \<noteq> [] \<Longrightarrow> hd (join_lines (l # ls)) = hd l"
  by (cases ls) simp_all

lemma last_join_lines: "ls \<noteq> [] \<Longrightarrow> last ls \<noteq> [] \<Longrightarrow> last (join_lines ls) = last (last ls)"
proof (induction ls rule: join_lines.induct)
  case 1
  then show ?case by simp
next
  case (2 l)
  then show ?case by simp
next
  case (3 l l' ls)
  have "join_lines (l' # ls) \<noteq> []"
    using "3.prems" by (induction ls arbitrary: l') (auto split: list.splits)
  then show ?case
    using 3 by simp
qed

lemma join_lines_nonempty: "l \<noteq> [] \<Longrightarrow> join_lines (l # ls) \<noteq> []"
  by (cases ls) simp_all

lemma entry_worktree_line:
  assumes "n \<noteq> []" and "\<not> is_space (last n)"
  shows "startsWith ''worktree '' (worktree_line n)"
    and "trim (replace_first ''worktree '' [] (worktree_line n)) = worktree_dir n"
    and "str_includes ''.worktrees'' (worktree_dir n)"
    and "worktree_dir n \<noteq> []"
proof -
  show "startsWith ''worktree '' (worktree_line n)"
    by (simp add: startsWith_def worktree_line_def)
  have "replace_first ''worktree '' [] (worktree_line n) = worktree_dir n"
    by (simp add: startsWith_def worktree_line_def)
  moreover have "trim (worktree_dir n) = worktree_dir n"
    using assms by (intro trim_id) (simp_all add: is_space_def worktree_dir_def)
  ultimately show "trim (replace_first ''worktree '' [] (worktree_line n)) = worktree_dir n"
    by simp
  show "str_includes ''.worktrees'' (worktree_dir n)"
    by (simp add: startsWith_def worktree_dir_def)
  show "worktree_dir n \<noteq> []"
    by (simp add: worktree_dir_def)
qed

lemma entry_branch_line:
  assumes "n \<noteq> []" and "\<not> is_space (last n)"
  shows "\<not> startsWith ''worktree '' (branch_line n)"
    and "startsWith ''branch '' (branch_line n)"
    and "replace_first ''refs/heads/'' [] (trim (replace_first ''branch '' [] (branch_line n))) = n"
proof -
  show "\<not> startsWith ''worktree '' (branch_line n)"
    by (simp add: startsWith_def branch_line_def)
  show "startsWith ''branch '' (branch_line n)"
    by (simp add: startsWith_def branch_line_def)
  have "replace_first ''branch '' [] (branch_line n) = ''refs/heads/'' @ n"
    by (simp add: startsWith_def branch_line_def)
  moreover have "trim (''refs/heads/'' @ n) = ''refs/heads/'' @ n"
    using assms by (intro trim_id) (simp_all add: is_space_def)
  moreover have "replace_first ''refs/heads/'' [] (''refs/heads/'' @ n) = n"
    by (simp add: startsWith_def)
  ultimately show "replace_first ''refs/heads/'' [] (trim (replace_first ''branch '' [] (branch_line n))) = n"
    by simp
qed

lemma listed_info_dirs: "dirs w' = dirs w \<Longrightarrow> listed_info w' n = listed_info w n"
  by (simp add: listed_info_def getLockStatus_def read_metadata_def)

lemma push_current_entry:
  assumes clean: "\<And>h cwd. R h ''git status --porcelain'' cwd = Inr []"
    and "n \<noteq> []" and "\<not> is_space (last n)"
  shows "fst (push_current R \<lparr>cur_path = Some (worktree_dir n), cur_branch = Some n\<rparr> acc w) =
     acc @ [listed_info w n]"
proof -
  have e: "status_lines (trim []) = []"
    by (simp add: status_lines_def trim_def)
  have i: "str_includes ''.worktrees'' (worktree_dir n)" and ne: "worktree_dir n \<noteq> []"
    by (rule entry_worktree_line(3) [OF assms(2,3)], rule entry_worktree_line(4) [OF assms(2,3)])
  show ?thesis
    using assms(2) i ne
    by (simp add: push_current_def isClean_def exec_def clean e listed_info_def getLockStatus_issued)
qed

lemma list_loop_entries:
  assumes clean: "\<And>h cwd. R h ''git status --porcelain'' cwd = Inr []"
  shows "\<forall>n \<in> set names. n \<noteq> [] \<and> \<not> is_space (last n) \<Longrightarrow>
     fst (list_loop R (concat (map listing_entry names)) cur acc w) =
       fst (push_current R cur acc w) @ map (listed_info w) names"
proof (induction names arbitrary: cur acc w)
  case Nil
  show ?case by simp
next
  case (Cons n names)
  have n: "n \<noteq> []" "\<not> is_space (last n)"
    using Cons.prems by simp_all
  have rest: "\<forall>n \<in> set names. n \<noteq> [] \<and> \<not> is_space (last n)"
    using Cons.prems by simp
  obtain acc1 w1 where p: "push_current R cur acc w = (acc1, w1)"
    by (cases "push_current R cur acc w")
  have f1: "dirs w1 = dirs w"
    using push_current_frame [of R cur acc w] p by simp
  define cur' where "cur' = \<lparr>cur_path = Some (worktree_dir n), cur_branch = Some n\<rparr>"
  have step: "list_loop R (concat (map listing_entry (n # names))) cur acc w =
      list_loop R (concat (map listing_entry names)) cur' acc1 w1"
    by (simp add: listing_entry_def entry_worktree_line [OF n] entry_branch_line [OF n] p cur'_def)
  have "fst (list_loop R (concat (map listing_entry names)) cur' acc1 w1) =
      fst (push_current R cur' acc1 w1) @ map (listed_info w1) names"
    by (rule Cons.IH [OF rest])
  also have "fst (push_current R cur' acc1 w1) = acc1 @ [listed_info w1 n]"
    unfolding cur'_def by (rule push_current_entry [where R = R, OF clean n])
  finally have "fst (list_loop R (concat (map listing_entry names)) cur' acc1 w1) =
      acc1 @ map (listed_info w1) (n # names)"
    by simp
  moreover have "map (listed_info w1) (n # names) = map (listed_info w) (n # names)"
    using listed_info_dirs [OF f1] by simp
  ultimately show ?case
    by (simp only: step p fst_conv)
qed

lemma many_names_good:
  assumes "n \<in> set many_names"
  shows "n \<noteq> [] \<and> \<not> is_space (last n) \<and> LF \<notin> set n \<and> CR \<notin> set n"
proof -
  obtain i where n: "n = replicate (Suc i) CHR ''x''"
    using assms by (auto simp add: many_names_def)
  have "last (replicate (Suc i) CHR ''x'') = CHR ''x''"
    by (rule last_replicate) simp
  then have "\<not> is_space (last n)"
    by (simp only: n) (simp add: is_space_def)
  moreover have "n \<noteq> [] \<and> LF \<notin> set n \<and> CR \<notin> set n"
    by (simp add: n LF_def CR_def)
  ultimately show ?thesis
    by simp
qed

lemma many_names_nonempty: "many_names \<noteq> []"
  by (simp add: many_names_def)

lemma listing_lines_clean:
  assumes "\<forall>n \<in> set names. LF \<notin> set n \<and> CR \<notin> set n"
  shows "\<forall>l \<in> set (concat (map listing_entry names)). LF \<notin> set l \<and> CR \<notin> set l"
  using assms
  by (auto simp add: listing_entry_def worktree_line_def worktree_dir_def branch_line_def LF_def CR_def)

lemma last_listing_lines:
  "names \<noteq> [] \<Longrightarrow> last (concat (map listing_entry names)) = branch_line (last names)"
  by (induction names) (simp_all add: listing_entry_def)

lemma listing_trimmed:
  assumes "names \<noteq> []" and "\<forall>n \<in> set names. n \<noteq> [] \<and> \<not> is_space (last n)"
  shows "trim (join_lines (concat (map listing_entry names))) = join_lines (concat (map listing_entry names))"
proof -
  obtain n ns where names: "names = n # ns"
    using assms(1) by (cases names) simp_all
  define ls where "ls = branch_line n # concat (map listing_entry ns)"
  have c: "concat (map listing_entry names) = worktree_line n # ls"
    by (simp add: names listing_entry_def ls_def)
  have w: "worktree_line n \<noteq> []" and hw: "hd (worktree_line n) = CHR ''w''"
    by (simp_all add: worktree_line_def)
  have ne: "join_lines (concat (map listing_entry names)) \<noteq> []"
    unfolding c by (rule join_lines_nonempty [OF w])
  have h: "hd (join_lines (concat (map listing_entry names))) = CHR ''w''"
    unfolding c by (simp add: hd_join_lines [OF w] hw)
  have lastn: "last names \<in> set names"
    using assms(1) by simp
  then have good: "last names \<noteq> []" "\<not> is_space (last (last names))"
    using assms(2) by auto
  have bl: "branch_line (last names) \<noteq> []"
    and lb: "last (branch_line (last names)) = last (last names)"
    using good(1) by (simp_all add: branch_line_def)
  have cne: "concat (map listing_entry names) \<noteq> []"
    by (simp add: c)
  have "last (join_lines (concat (map listing_entry names))) = last (last (concat (map listing_entry names)))"
    by (rule last_join_lines [OF cne]) (simp add: last_listing_lines [OF assms(1)] bl)
  then have l: "last (join_lines (concat (map listing_entry names))) = last (last names)"
    by (simp add: last_listing_lines [OF assms(1)] lb)
  have nh: "\<not> is_space (hd (join_lines (concat (map listing_entry names))))"
    by (simp add: h is_space_def)
  have nl: "\<not> is_space (last (join_lines (concat (map listing_entry names))))"
    by (simp only: l good(2) not_False_eq_True)
  show ?thesis
    by (rule trim_id [OF ne nh nl])
qed

lemma many_listed:
  assumes "baseDir w = ''/repo''"
  shows "fst (listWorktrees R_many w) = Inr (map (listed_info w) many_names)"
proof -
  have clean: "\<And>h cwd. R_many h ''git status --porcelain'' cwd = Inr []"
    by (simp add: R_many_def)
  have l: "\<And>h cwd. R_many h ''git worktree list --porcelain'' cwd = Inr many_listing"
    by (simp add: R_many_def)
  have good: "\<forall>n \<in> set many_names. n \<noteq> [] \<and> \<not> is_space (last n)"
    using many_names_good by blast
  have nolf: "\<forall>n \<in> set many_names. LF \<notin> set n \<and> CR \<notin> set n"
    using many_names_good by blast
  have cne: "concat (map listing_entry many_names) \<noteq> []"
    using many_names_nonempty by (cases many_names) (simp_all add: listing_entry_def)
  have "trim many_listing = many_listing"
    unfolding many_listing_def by (rule listing_trimmed [OF many_names_nonempty good])
  then have lines: "split_lines (trim many_listing) = concat (map listing_entry many_names)"
    using split_join_lines [OF cne listing_lines_clean [OF nolf]] by (simp add: many_listing_def)
  define w0 where "w0 = w\<lparr>issued := issued w @ [(''git worktree list --porcelain'', ''/repo'')]\<rparr>"
  have "fst (listWorktrees R_many w) =
      Inr (fst (list_loop R_many (split_lines (trim many_listing)) \<lparr>cur_path = None, cur_branch = None\<rparr> [] w0))"
    by (simp add: listWorktrees_def exec_def l assms w0_def split: prod.splits)
  also have "fst (list_loop R_many (split_lines (trim many_listing)) \<lparr>cur_path = None, cur_branch = None\<rparr> [] w0) =
      fst (push_current R_many \<lparr>cur_path = None, cur_branch = None\<rparr> [] w0) @ map (listed_info w0) many_names"
    unfolding lines by (rule list_loop_entries [where R = R_many, OF clean good])
  also have "\<dots> = map (listed_info w) many_names"
    by (simp add: push_current_def w0_def listed_info_def getLockStatus_issued)
  finally show ?thesis .
qed

lemma many_held_port:
  assumes "i < 51"
  shows "held_port w_many (worktree_dir (replicate (Suc i) CHR ''x'')) = Some (8000 + int i)"
proof -
  have "many_dirs (worktree_dir (replicate (Suc i) CHR ''x'')) =
      Some \<lparr>metadata_json = Doc (empty_metadata\<lparr>port := Some (7999 + int (Suc i))\<rparr>), env_local = None\<rparr>"
    using assms by (simp add: many_dirs_def worktree_dir_def list_all_iff)
  then show ?thesis
    by (simp add: held_port_def read_metadata_def w_many_def)
qed

lemma many_all_held:
  assumes "8000 \<le> x" and "x \<le> 8050"
  shows "x \<in> set (held_ports w_many (map wt_path (map (listed_info w_many) many_names)))"
proof -
  define i where "i = nat (x - 8000)"
  have i: "i < 51" and x: "x = 8000 + int i"
    using assms by (simp_all add: i_def)
  have "replicate (Suc i) CHR ''x'' \<in> set many_names"
    using i by (simp add: many_names_def)
  then have "worktree_dir (replicate (Suc i) CHR ''x'') \<in> set (map wt_path (map (listed_info w_many) many_names))"
    by (simp add: listed_info_def image_iff) blast
  then show ?thesis
    using many_held_port [OF i] x by (auto simp add: held_ports_set)
qed

text \<open>
  C5, amended. For every feature whose worktree exists and whose metadata file is absent
  or parses, in a state in which the worktrees can be listed: if some value of the closed
  range [8000, 8050] is not held in the port field of a listed worktree (registered, on a
  branch, under \<open>.worktrees\<close>), \<open>portRequest(feature)\<close> returns the smallest such value and
  writes it to the port field of the requesting worktree's metadata, keeping the other
  fields; if every value of the range is held by a listed worktree, it fails with
  RangeExhausted. Any port returned lies within [8000, 8050]. Requests one after the
  other, with nothing in between, by distinct worktrees that every listing includes return
  pairwise-distinct ports. After a release the worktree holds no port and the other
  worktrees hold what they held, so the released port is free for a later request.
\<close>

theorem portRequest_leases:
  "(dirs w (getWorktreeDir (baseDir w) feature) = Some d \<and> metadata_json d \<noteq> Corrupt
      \<and> listWorktrees R w = (Inr worktrees, w1) \<longrightarrow>
      ((\<exists>x. 8000 \<le> x \<and> x \<le> 8050 \<and> x \<notin> set (held_ports w (map wt_path worktrees))) \<longrightarrow>
         (\<exists>q. fst (portRequest R feature w) = Inr q \<and> 8000 \<le> q \<and> q \<le> 8050
            \<and> q \<notin> set (held_ports w (map wt_path worktrees))
            \<and> (\<forall>x. 8000 \<le> x \<and> x < q \<longrightarrow> x \<in> set (held_ports w (map wt_path worktrees)))
            \<and> read_metadata (snd (portRequest R feature w)) (getWorktreeDir (baseDir w) feature) =
                Doc ((doc_or_empty (metadata_json d))\<lparr>port := Some q\<rparr>)))
      \<and> ((\<forall>x. 8000 \<le> x \<and> x \<le> 8050 \<longrightarrow> x \<in> set (held_ports w (map wt_path worktrees))) \<longrightarrow>
           portRequest R feature w = (Inl RangeExhausted, w1)))
   \<and> (portRequest R feature w = (Inr q, w') \<longrightarrow> 8000 \<le> q \<and> q \<le> 8050)
   \<and> ((\<forall>v wts v'. baseDir v = baseDir w \<and> listWorktrees R v = (Inr wts, v') \<longrightarrow>
          getWorktreeDir (baseDir w) ` set features \<subseteq> wt_path ` set wts)
       \<and> distinct (map (getWorktreeDir (baseDir w)) features) \<longrightarrow>
       distinct (granted (fst (portRequests R features w))))
   \<and> (portRelease feature w = (Inr (), w') \<longrightarrow>
        held_port w' (getWorktreeDir (baseDir w) feature) = None
        \<and> (\<forall>p. p \<noteq> getWorktreeDir (baseDir w) feature \<longrightarrow> held_port w' p = held_port w p))"
proof (intro conjI impI)
  assume a: "dirs w (getWorktreeDir (baseDir w) feature) = Some d \<and> metadata_json d \<noteq> Corrupt
      \<and> listWorktrees R w = (Inr worktrees, w1)"
  then have d: "dirs w (getWorktreeDir (baseDir w) feature) = Some d"
    and rd: "metadata_json d \<noteq> Corrupt" and l: "listWorktrees R w = (Inr worktrees, w1)"
    by simp_all
  have f: "dirs w1 = dirs w"
    using listWorktrees_frame [of R w] l by simp
  have d1: "dirs w1 (getWorktreeDir (baseDir w) feature) \<noteq> None"
    using d by (simp add: f)
  {
    assume free: "\<exists>x. 8000 \<le> x \<and> x \<le> 8050 \<and> x \<notin> set (held_ports w (map wt_path worktrees))"
    obtain q where run: "portRequest R feature w =
       (Inr q, write_env (put_metadata w1 (getWorktreeDir (baseDir w) feature)
          (Doc ((doc_or_empty (metadata_json d))\<lparr>port := Some q\<rparr>)))
          (getWorktreeDir (baseDir w) feature) q)"
      and q: "8000 \<le> q" "q \<le> 8050" "q \<notin> set (held_ports w (map wt_path worktrees))"
        "\<forall>x. 8000 \<le> x \<and> x < q \<longrightarrow> x \<in> set (held_ports w (map wt_path worktrees))"
      using portRequest_free [OF d rd l free] by blast
    have doc: "read_metadata (snd (portRequest R feature w)) (getWorktreeDir (baseDir w) feature) =
        Doc ((doc_or_empty (metadata_json d))\<lparr>port := Some q\<rparr>)"
      using d1 by (simp add: run read_write_env read_put_metadata)
    have res: "fst (portRequest R feature w) = Inr q"
      by (simp add: run)
    show "\<exists>q. fst (portRequest R feature w) = Inr q \<and> 8000 \<le> q \<and> q \<le> 8050
            \<and> q \<notin> set (held_ports w (map wt_path worktrees))
            \<and> (\<forall>x. 8000 \<le> x \<and> x < q \<longrightarrow> x \<in> set (held_ports w (map wt_path worktrees)))
            \<and> read_metadata (snd (portRequest R feature w)) (getWorktreeDir (baseDir w) feature) =
                Doc ((doc_or_empty (metadata_json d))\<lparr>port := Some q\<rparr>)"
      using res q doc by blast
  }
  {
    assume full: "\<forall>x. 8000 \<le> x \<and> x \<le> 8050 \<longrightarrow> x \<in> set (held_ports w (map wt_path worktrees))"
    show "portRequest R feature w = (Inl RangeExhausted, w1)"
      by (rule portRequest_exhausted [OF d l full])
  }
next
  assume "portRequest R feature w = (Inr q, w')"
  then show "8000 \<le> q" and "q \<le> 8050"
    using portRequest_granted [of R feature w q w'] by auto
next
  assume h: "(\<forall>v wts v'. baseDir v = baseDir w \<and> listWorktrees R v = (Inr wts, v') \<longrightarrow>
          getWorktreeDir (baseDir w) ` set features \<subseteq> wt_path ` set wts)
       \<and> distinct (map (getWorktreeDir (baseDir w)) features)"
  have listed: "\<And>v wts v'. baseDir v = baseDir w \<Longrightarrow> listWorktrees R v = (Inr wts, v') \<Longrightarrow>
      getWorktreeDir (baseDir w) ` set features \<subseteq> wt_path ` set wts"
    using h by blast
  have dis: "distinct (map (getWorktreeDir (baseDir w)) features)"
    using h by simp
  have "distinct (granted (fst (portRequests R features w)))
     \<and> (\<forall>q \<in> set (granted (fst (portRequests R features w))). \<forall>p \<in> {}. held_port w p \<noteq> Some q)"
    by (rule portRequests_distinct [where P = "getWorktreeDir (baseDir w) ` set features",
          OF listed refl dis]) simp_all
  then show "distinct (granted (fst (portRequests R features w)))"
    by simp
next
  assume r: "portRelease feature w = (Inr (), w')"
  have e: "held_port w' (getWorktreeDir (baseDir w) feature) = None"
    and o: "\<forall>p. p \<noteq> getWorktreeDir (baseDir w) feature \<longrightarrow> dirs w' p = dirs w p"
    using portRelease_effect [OF r] by simp_all
  show "held_port w' (getWorktreeDir (baseDir w) feature) = None"
    by (rule e)
  show "\<forall>p. p \<noteq> getWorktreeDir (baseDir w) feature \<longrightarrow> held_port w' p = held_port w p"
  proof (intro allI impI)
    fix p
    assume "p \<noteq> getWorktreeDir (baseDir w) feature"
    then have "dirs w' p = dirs w p"
      using o by simp
    then show "held_port w' p = held_port w p"
      by (rule held_port_dirs)
  qed
qed

lemma ports_listing_pair:
  assumes "baseDir w = ''/repo''"
  shows "listWorktrees R_ports w = (Inr (ports_worktrees w), snd (listWorktrees R_ports w))"
  using ports_listed [OF assms] by (metis prod.collapse)

lemma ports_held:
  "held_ports w (map wt_path (ports_worktrees w)) =
     List.map_filter (held_port w) [''/repo/.worktrees/b'', ''/repo/.worktrees/c'', ''/repo/.worktrees/d'']"
  by (simp add: held_ports_def ports_worktrees_def)

lemma w_ports_held:
  "held_port w_ports ''/repo/.worktrees/b'' = None"
  "held_port w_ports ''/repo/.worktrees/c'' = Some 8000"
  "held_port w_ports ''/repo/.worktrees/d'' = None"
  by (simp_all add: held_port_def read_metadata_def w_ports_def empty_metadata_def)

lemma x_dir: "getWorktreeDir ''/repo'' ''x'' = ''/repo/.worktrees/x''"
  by (simp add: getWorktreeDir_def normalize_feature_def is_alnum_dash_def)

theorem portRequest_leases_witness:
  "dirs w_ports (getWorktreeDir (baseDir w_ports) ''b'') = Some \<lparr>metadata_json = NoFile, env_local = None\<rparr>
   \<and> fst (listWorktrees R_ports w_ports) = Inr (ports_worktrees w_ports)
   \<and> held_ports w_ports (map wt_path (ports_worktrees w_ports)) = [8000]
   \<and> fst (portRequest R_ports ''b'' w_ports) = Inr 8001
   \<and> read_metadata (snd (portRequest R_ports ''b'' w_ports)) ''/repo/.worktrees/b'' =
        Doc (empty_metadata\<lparr>port := Some 8001\<rparr>)
   \<and> fst (listWorktrees R_many w_many) = Inr (map (listed_info w_many) many_names)
   \<and> set [8000..8050] \<subseteq> set (held_ports w_many (map wt_path (map (listed_info w_many) many_names)))
   \<and> fst (portRequest R_many ''x'' w_many) = Inl RangeExhausted
   \<and> distinct (map (getWorktreeDir (baseDir w_ports)) [''b'', ''d''])
   \<and> granted (fst (portRequests R_ports [''b'', ''d''] w_ports)) = [8001, 8002]
   \<and> distinct (granted (fst (portRequests R_ports [''b'', ''d''] w_ports)))
   \<and> held_port w_ports ''/repo/.worktrees/c'' = Some 8000
   \<and> fst (portRelease ''c'' w_ports) = Inr ()
   \<and> held_port (snd (portRelease ''c'' w_ports)) ''/repo/.worktrees/c'' = None
   \<and> fst (portRequest R_ports ''d'' (snd (portRelease ''c'' w_ports))) = Inr 8000"
proof -
  have b: "baseDir w_ports = ''/repo''"
    by (simp add: w_ports_def)
  have rd: "metadata_json \<lparr>metadata_json = NoFile, env_local = None\<rparr> \<noteq> Corrupt"
    by simp
  txt \<open>One request: the smallest port that no listed worktree holds.\<close>
  have db: "dirs w_ports (getWorktreeDir (baseDir w_ports) ''b'') =
      Some \<lparr>metadata_json = NoFile, env_local = None\<rparr>"
    by (simp add: b ports_dirs) (simp add: w_ports_def)
  have lf: "fst (listWorktrees R_ports w_ports) = Inr (ports_worktrees w_ports)"
    by (rule ports_listed [OF b])
  have l: "listWorktrees R_ports w_ports =
      (Inr (ports_worktrees w_ports), snd (listWorktrees R_ports w_ports))"
    by (rule ports_listing_pair [OF b])
  have h: "held_ports w_ports (map wt_path (ports_worktrees w_ports)) = [8000]"
    by (simp add: ports_held map_filter_def w_ports_held)
  have c: "(8000::int) \<le> 8001" "(8001::int) \<le> 8050"
    "8001 \<notin> set (held_ports w_ports (map wt_path (ports_worktrees w_ports)))"
    "\<forall>x. 8000 \<le> x \<and> x < 8001 \<longrightarrow> x \<in> set (held_ports w_ports (map wt_path (ports_worktrees w_ports)))"
    by (simp_all add: h)
  define wb where "wb = snd (portRequest R_ports ''b'' w_ports)"
  have first: "portRequest R_ports ''b'' w_ports = (Inr 8001, wb)"
    using portRequest_smallest [OF db rd l c] by (simp add: wb_def)
  have free: "\<exists>x. 8000 \<le> x \<and> x \<le> 8050 \<and> x \<notin> set (held_ports w_ports (map wt_path (ports_worktrees w_ports)))"
    using c by blast
  have "\<exists>q. fst (portRequest R_ports ''b'' w_ports) = Inr q \<and> 8000 \<le> q \<and> q \<le> 8050
      \<and> q \<notin> set (held_ports w_ports (map wt_path (ports_worktrees w_ports)))
      \<and> (\<forall>x. 8000 \<le> x \<and> x < q \<longrightarrow> x \<in> set (held_ports w_ports (map wt_path (ports_worktrees w_ports))))
      \<and> read_metadata (snd (portRequest R_ports ''b'' w_ports)) (getWorktreeDir (baseDir w_ports) ''b'') =
          Doc ((doc_or_empty (metadata_json \<lparr>metadata_json = NoFile, env_local = None\<rparr>))\<lparr>port := Some q\<rparr>)"
    using portRequest_leases [where R = R_ports and w = w_ports and feature = "''b''"
        and d = "\<lparr>metadata_json = NoFile, env_local = None\<rparr>"
        and worktrees = "ports_worktrees w_ports" and ?w1.0 = "snd (listWorktrees R_ports w_ports)",
        THEN conjunct1, THEN mp, OF conjI [OF db conjI [OF rd l]], THEN conjunct1, THEN mp, OF free] .
  then have doc: "read_metadata wb ''/repo/.worktrees/b'' = Doc (empty_metadata\<lparr>port := Some 8001\<rparr>)"
    using first by (auto simp add: b ports_dirs doc_or_empty_def)
  txt \<open>Every port taken.\<close>
  have bm: "baseDir w_many = ''/repo''"
    by (simp add: w_many_def)
  have dx: "dirs w_many (getWorktreeDir (baseDir w_many) ''x'') =
      Some \<lparr>metadata_json = Doc (empty_metadata\<lparr>port := Some (7999 + int (length (drop 17 ''/repo/.worktrees/x'')))\<rparr>),
        env_local = None\<rparr>"
    by (simp add: bm x_dir) (simp add: w_many_def many_dirs_def)
  have rdx: "metadata_json \<lparr>metadata_json = Doc (empty_metadata\<lparr>port := Some (7999 + int (length (drop 17 ''/repo/.worktrees/x'')))\<rparr>),
        env_local = None\<rparr> \<noteq> Corrupt"
    by simp
  have lmf: "fst (listWorktrees R_many w_many) = Inr (map (listed_info w_many) many_names)"
    by (rule many_listed [OF bm])
  then have lm: "listWorktrees R_many w_many =
      (Inr (map (listed_info w_many) many_names), snd (listWorktrees R_many w_many))"
    by (metis prod.collapse)
  have full: "\<forall>x. 8000 \<le> x \<and> x \<le> 8050 \<longrightarrow>
      x \<in> set (held_ports w_many (map wt_path (map (listed_info w_many) many_names)))"
    using many_all_held by blast
  then have sub: "set [8000..8050] \<subseteq> set (held_ports w_many (map wt_path (map (listed_info w_many) many_names)))"
    by auto
  have "portRequest R_many ''x'' w_many = (Inl RangeExhausted, snd (listWorktrees R_many w_many))"
    using portRequest_leases [where R = R_many and w = w_many and feature = "''x''"
        and worktrees = "map (listed_info w_many) many_names"
        and ?w1.0 = "snd (listWorktrees R_many w_many)",
        THEN conjunct1, THEN mp, OF conjI [OF dx conjI [OF rdx lm]], THEN conjunct2, THEN mp, OF full] .
  then have exhausted: "fst (portRequest R_many ''x'' w_many) = Inl RangeExhausted"
    by simp
  txt \<open>Two requests, one after the other.\<close>
  have eb: "held_port wb ''/repo/.worktrees/b'' = Some 8001" and bb: "baseDir wb = ''/repo''"
    and ob: "\<And>p. p \<noteq> ''/repo/.worktrees/b'' \<Longrightarrow> dirs wb p = dirs w_ports p"
    using portRequest_effect [OF first] by (simp_all add: b ports_dirs)
  have dd: "dirs wb (getWorktreeDir (baseDir wb) ''d'') = Some \<lparr>metadata_json = NoFile, env_local = None\<rparr>"
    by (simp add: bb ports_dirs ob) (simp add: w_ports_def)
  have lb: "listWorktrees R_ports wb = (Inr (ports_worktrees wb), snd (listWorktrees R_ports wb))"
    by (rule ports_listing_pair [OF bb])
  have hc: "held_port wb ''/repo/.worktrees/c'' = Some 8000"
    using held_port_dirs [of wb "''/repo/.worktrees/c''" w_ports] ob by (simp add: w_ports_held)
  have hd: "held_port wb ''/repo/.worktrees/d'' = None"
    using held_port_dirs [of wb "''/repo/.worktrees/d''" w_ports] ob by (simp add: w_ports_held)
  have hb: "held_ports wb (map wt_path (ports_worktrees wb)) = [8001, 8000]"
    by (simp add: ports_held map_filter_def eb hc hd)
  have below: "\<forall>x. 8000 \<le> x \<and> x < 8002 \<longrightarrow> x \<in> set [8001, 8000::int]"
    by auto
  have cb: "(8000::int) \<le> 8002" "(8002::int) \<le> 8050"
    "8002 \<notin> set (held_ports wb (map wt_path (ports_worktrees wb)))"
    "\<forall>x. 8000 \<le> x \<and> x < 8002 \<longrightarrow> x \<in> set (held_ports wb (map wt_path (ports_worktrees wb)))"
    using below by (simp_all add: hb)
  have second: "fst (portRequest R_ports ''d'' wb) = Inr 8002"
    using portRequest_smallest [OF dd rd lb cb] by simp
  obtain r2 w2 where s2: "portRequest R_ports ''d'' wb = (r2, w2)"
    by (cases "portRequest R_ports ''d'' wb")
  have r2: "r2 = Inr 8002"
    using second s2 by simp
  have seq: "granted (fst (portRequests R_ports [''b'', ''d''] w_ports)) = [8001, 8002]"
    by (simp add: first s2 r2)
  have paths: "distinct (map (getWorktreeDir (baseDir w_ports)) [''b'', ''d''])"
    by (simp add: b ports_dirs)
  have always: "\<forall>v wts v'. baseDir v = baseDir w_ports \<and> listWorktrees R_ports v = (Inr wts, v') \<longrightarrow>
      getWorktreeDir (baseDir w_ports) ` set [''b'', ''d''] \<subseteq> wt_path ` set wts"
  proof (intro allI impI)
    fix v wts v'
    assume a: "baseDir v = baseDir w_ports \<and> listWorktrees R_ports v = (Inr wts, v')"
    then have "fst (listWorktrees R_ports v) = Inr (ports_worktrees v)"
      using ports_listed [of v] by (simp add: b)
    then have "wts = ports_worktrees v"
      using a by simp
    then show "getWorktreeDir (baseDir w_ports) ` set [''b'', ''d''] \<subseteq> wt_path ` set wts"
      by (simp add: b ports_dirs ports_worktrees_def)
  qed
  have dist: "distinct (granted (fst (portRequests R_ports [''b'', ''d''] w_ports)))"
    using portRequest_leases [where R = R_ports and w = w_ports and features = "[''b'', ''d'']",
        THEN conjunct2, THEN conjunct2, THEN conjunct1, THEN mp, OF conjI [OF always paths]] .
  txt \<open>A release, and the released port given out again.\<close>
  define wr where "wr = snd (portRelease ''c'' w_ports)"
  have rel: "portRelease ''c'' w_ports = (Inr (), wr)"
    unfolding wr_def
    by (simp add: portRelease_def Let_def b ports_dirs read_metadata_def truthy_num_def)
      (simp add: w_ports_def empty_metadata_def)
  have gone: "held_port wr (getWorktreeDir (baseDir w_ports) ''c'') = None
      \<and> (\<forall>p. p \<noteq> getWorktreeDir (baseDir w_ports) ''c'' \<longrightarrow> held_port wr p = held_port w_ports p)"
    using portRequest_leases [where w = w_ports and feature = "''c''" and w' = wr,
        THEN conjunct2, THEN conjunct2, THEN conjunct2, THEN mp, OF rel] .
  have rc: "held_port wr ''/repo/.worktrees/c'' = None"
    and rb: "held_port wr ''/repo/.worktrees/b'' = None"
    and rdd: "held_port wr ''/repo/.worktrees/d'' = None"
    using gone by (simp_all add: b ports_dirs w_ports_held)
  have br: "baseDir wr = ''/repo''"
    and orr: "\<And>p. p \<noteq> ''/repo/.worktrees/c'' \<Longrightarrow> dirs wr p = dirs w_ports p"
    using portRelease_effect [OF rel] by (simp_all add: b ports_dirs)
  have ddr: "dirs wr (getWorktreeDir (baseDir wr) ''d'') = Some \<lparr>metadata_json = NoFile, env_local = None\<rparr>"
    by (simp add: br ports_dirs orr) (simp add: w_ports_def)
  have lr: "listWorktrees R_ports wr = (Inr (ports_worktrees wr), snd (listWorktrees R_ports wr))"
    by (rule ports_listing_pair [OF br])
  have hr: "held_ports wr (map wt_path (ports_worktrees wr)) = []"
    by (simp add: ports_held map_filter_def rb rc rdd)
  have cr: "(8000::int) \<le> 8000" "(8000::int) \<le> 8050"
    "8000 \<notin> set (held_ports wr (map wt_path (ports_worktrees wr)))"
    "\<forall>x. 8000 \<le> x \<and> x < 8000 \<longrightarrow> x \<in> set (held_ports wr (map wt_path (ports_worktrees wr)))"
    by (simp_all add: hr)
  have reuse: "fst (portRequest R_ports ''d'' wr) = Inr 8000"
    using portRequest_smallest [OF ddr rd lr cr] by simp
  have f1: "fst (portRequest R_ports ''b'' w_ports) = Inr 8001"
    by (simp add: first)
  have f2: "fst (portRelease ''c'' w_ports) = Inr ()"
    by (simp add: rel)
  show ?thesis
    using db lf h f1 doc lmf sub exhausted paths seq dist w_ports_held(2) f2 rc reuse
    unfolding wb_def wr_def by (intro conjI)
qed

end
